theory Spec2Isabelle
  imports Complex_Main
begin

section \<open>JavaScript values used by the routes\<close>

text \<open>
  The six API routes under \<^verbatim>\<open>src/app/api/osrs/*/route.ts\<close> and the client page
  \<^verbatim>\<open>src/app/analytics/page.tsx\<close> are embedded function by function.

  Numbers that come from the summary documents are JavaScript numbers. They are modelled
  as exact rationals: a JSON document cannot carry \<open>NaN\<close> or an infinity, and the only
  arithmetic the routes do on them is subtraction, multiplication and \<open>Math.floor\<close>.
  The rationals are exact where the code's doubles round: the derived fields
  (\<^verbatim>\<open>potentialProfit\<close>, \<^verbatim>\<open>tax\<close>, \<^verbatim>\<open>dipMagnitude\<close>, \<^verbatim>\<open>maxProfit4h\<close>) are idealised on inputs
  that are not integers of ordinary size.
  An optional property (\<^verbatim>\<open>field?: number\<close>) that is absent (or \<^verbatim>\<open>null\<close>) is \<open>None\<close>.
\<close>

type_synonym number = rat

text \<open>
  \<^verbatim>\<open>a || b\<close> yields \<open>a\<close> when \<open>a\<close> is truthy and \<open>b\<close> otherwise. A number is falsy
  when it is \<open>0\<close>, a string when it is empty, a boolean when it is \<open>false\<close>; \<^verbatim>\<open>undefined\<close>
  and \<^verbatim>\<open>null\<close> are falsy.
\<close>

definition num_or :: "number option \<Rightarrow> number \<Rightarrow> number" where
  "num_or a b = (case a of None \<Rightarrow> b | Some v \<Rightarrow> if v = 0 then b else v)"

definition str_or :: "string option \<Rightarrow> string \<Rightarrow> string" where
  "str_or a b = (case a of None \<Rightarrow> b | Some s \<Rightarrow> if s = [] then b else s)"

definition bool_or :: "bool option \<Rightarrow> bool \<Rightarrow> bool" where
  "bool_or a b = (case a of None \<Rightarrow> b | Some v \<Rightarrow> if v then v else b)"

text \<open>The decimal digits of an index, as the template literal \<^verbatim>\<open>`alchemy-${index}`\<close> prints it.\<close>

definition digit :: "nat \<Rightarrow> char" where
  "digit d = (''0123456789'' ! d)"

fun string_of_nat :: "nat \<Rightarrow> string" where
  "string_of_nat n = (if n < 10 then [digit n] else string_of_nat (n div 10) @ [digit (n mod 10)])"

text \<open>
  A time in milliseconds since the epoch, as \<^verbatim>\<open>Date.now()\<close> and \<^verbatim>\<open>getTime()\<close> return it.
  \<^verbatim>\<open>new Date(s).getTime()\<close> is \<open>NaN\<close> when \<open>s\<close> is not a date; every comparison with
  \<open>NaN\<close> is false.
\<close>

datatype timestamp = Millis int | NaN

text \<open>
  The \<^verbatim>\<open>updated\<close> property of a summary document, which the fetch functions pass on
  untyped: missing, or any JSON value, that is \<^verbatim>\<open>null\<close>, a string, a number, a boolean,
  or an object or array. \<open>Obj s\<close> is an object or array whose conversion to a primitive
  yields the string \<open>s\<close> (\<^verbatim>\<open>"[object Object]"\<close>, or the joined elements of an array).
  \<^verbatim>\<open>JSON.stringify\<close> drops a property whose value is \<^verbatim>\<open>undefined\<close>, so in a response
  body \<open>Undefined\<close> also stands for "the key is not there".
\<close>

datatype updated = Undefined | Null | Str string | Num number | Bool bool | Obj string

text \<open>
  The truthiness of such a value, as the test \<^verbatim>\<open>result.updated ? ... : now\<close> and
  \<^verbatim>\<open>.filter(Boolean)\<close> take it: \<^verbatim>\<open>undefined\<close>, \<^verbatim>\<open>null\<close>, the empty string, \<open>0\<close> and
  \<^verbatim>\<open>false\<close> are falsy, every object is truthy.
\<close>

definition truthy :: "updated \<Rightarrow> bool" where
  "truthy u =
     (case u of
        Undefined \<Rightarrow> False
      | Null \<Rightarrow> False
      | Str s \<Rightarrow> s \<noteq> []
      | Num n \<Rightarrow> n \<noteq> 0
      | Bool b \<Rightarrow> b
      | Obj s \<Rightarrow> True)"

text \<open>
  \<^verbatim>\<open>new Date(u).getTime()\<close>. A string (also the string an object converts to) goes to
  the date parser, which is the runtime's, not the repository's: it is a parameter
  \<open>getTime\<close> of every function that calls it. Any other value is converted to a number
  (\<^verbatim>\<open>undefined\<close> to \<open>NaN\<close>, \<^verbatim>\<open>null\<close> and \<^verbatim>\<open>false\<close> to \<open>0\<close>, \<^verbatim>\<open>true\<close> to \<open>1\<close>) and clipped to a
  time value: \<open>NaN\<close> beyond \<open>8.64 \<times> 10\<^sup>1\<^sup>5\<close> ms, truncated towards zero otherwise.
\<close>

definition TimeClip :: "number \<Rightarrow> timestamp" where
  "TimeClip n =
     (if \<bar>n\<bar> > 8640000000000000 then NaN
      else Millis (if n \<ge> 0 then \<lfloor>n\<rfloor> else \<lceil>n\<rceil>))"

definition Date_getTime :: "(string \<Rightarrow> timestamp) \<Rightarrow> updated \<Rightarrow> timestamp" where
  "Date_getTime getTime u =
     (case u of
        Undefined \<Rightarrow> NaN
      | Null \<Rightarrow> Millis 0
      | Str s \<Rightarrow> getTime s
      | Num n \<Rightarrow> TimeClip n
      | Bool b \<Rightarrow> Millis (if b then 1 else 0)
      | Obj s \<Rightarrow> getTime s)"

datatype error = TransportError | SyntaxError | TypeError

text \<open>
  The value found under \<^verbatim>\<open>items\<close>. Calling \<^verbatim>\<open>.map\<close> on anything but an array raises a
  \<open>TypeError\<close> (\<open>NotArray\<close> covers \<^verbatim>\<open>undefined\<close>, \<^verbatim>\<open>null\<close> and every other non-array).
  An element that is \<^verbatim>\<open>null\<close> is \<open>None\<close>: reading a property of it raises too.
\<close>

datatype 'r jsitems = NotArray | Arr "'r option list"

text \<open>
  \<^verbatim>\<open>data.map((item, index) => ...)\<close> where the callback reads properties of \<open>item\<close>:
  the callback runs on the elements in order, and the first \<^verbatim>\<open>null\<close> element raises.
\<close>

fun map_index :: "('r \<Rightarrow> nat \<Rightarrow> 'o) \<Rightarrow> nat \<Rightarrow> 'r option list \<Rightarrow> error + 'o list" where
  "map_index f i [] = Inr []"
| "map_index f i (None # xs) = Inl TypeError"
| "map_index f i (Some x # xs) =
     (case map_index f (Suc i) xs of Inl e \<Rightarrow> Inl e | Inr ys \<Rightarrow> Inr (f x i # ys))"

definition js_map :: "('r \<Rightarrow> nat \<Rightarrow> 'o) \<Rightarrow> 'r jsitems \<Rightarrow> error + 'o list" where
  "js_map f data = (case data of NotArray \<Rightarrow> Inl TypeError | Arr xs \<Rightarrow> map_index f 0 xs)"

section \<open>Source Fetcher\<close>

text \<open>
  What the network does is an input of the model. A call of \<^verbatim>\<open>fetch\<close> either rejects
  (\<open>Throws\<close>) or resolves to a response with a status and a body. \<^verbatim>\<open>response.json()\<close>
  rejects on a body that is not JSON (\<open>BadJson\<close>); a body that is the JSON \<^verbatim>\<open>null\<close>
  parses, and reading \<^verbatim>\<open>summaryData.items\<close> of it raises; any other body is a document
  whose \<^verbatim>\<open>items\<close> and \<^verbatim>\<open>updated\<close> properties are read as they are.
\<close>

record 'r summary =
  items :: "'r jsitems"
  updated :: updated

datatype 'r body = BadJson | JsonNull | JsonDoc "'r summary"

record 'r http_response =
  status :: nat
  body :: "'r body"

definition ok :: "'r http_response \<Rightarrow> bool" where
  "ok r = (200 \<le> status r \<and> status r \<le> 299)"

datatype 'r outcome = Throws | Responds "'r http_response"

text \<open>
  The two remote locations of one category's summary: the GitHub contents API
  (\<open>primary\<close>) and the raw file URL (\<open>secondary\<close>), each with the outcome of the request
  to it. One path of the fetch functions requests the raw file a second time;
  \<open>secondaryRetry\<close> is the outcome of that second request.
\<close>

record 'r network =
  primary :: "'r outcome"
  secondary :: "'r outcome"
  secondaryRetry :: "'r outcome"

datatype endpoint = GithubApi | RawUrl

definition fetch :: "'r outcome \<Rightarrow> error + 'r http_response" where
  "fetch out = (case out of Throws \<Rightarrow> Inl TransportError | Responds r \<Rightarrow> Inr r)"

definition json :: "'r http_response \<Rightarrow> error + 'r summary option" where
  "json r = (case body r of
       BadJson \<Rightarrow> Inl SyntaxError
     | JsonNull \<Rightarrow> Inr None
     | JsonDoc d \<Rightarrow> Inr (Some d))"

text \<open>
  The inner \<^verbatim>\<open>try { ... } catch { ... }\<close> of the fetch functions (lines 35-67 of the
  alchemy route): the value left in \<^verbatim>\<open>githubResponse\<close> (or the exception of the last
  \<^verbatim>\<open>fetch\<close>, which leaves the block), and the requests made, in order. The request to
  the raw URL after a non-success status stands inside the \<^verbatim>\<open>try\<close>: when it raises, the
  \<^verbatim>\<open>catch\<close> block runs and requests the raw URL once more.
\<close>

definition githubResponse :: "'r network \<Rightarrow> (error + 'r http_response) \<times> endpoint list" where
  "githubResponse net =
     (case fetch (primary net) of
        Inr r \<Rightarrow>
          if \<not> ok r then
            (case fetch (secondary net) of
               Inr r2 \<Rightarrow> (Inr r2, [GithubApi, RawUrl])
             | Inl e \<Rightarrow> (fetch (secondaryRetry net), [GithubApi, RawUrl, RawUrl]))
          else (Inr r, [GithubApi])
      | Inl e \<Rightarrow> (fetch (secondary net), [GithubApi, RawUrl]))"

text \<open>
  The body of the outer \<^verbatim>\<open>try\<close>: \<open>Inr (Some result)\<close> is the \<^verbatim>\<open>return\<close> inside
  \<^verbatim>\<open>if (githubResponse.ok)\<close>, \<open>Inr None\<close> leaves the block without returning, \<open>Inl e\<close>
  is an exception raised inside it.
\<close>

definition readSummary :: "error + 'r http_response \<Rightarrow> error + 'r summary option" where
  "readSummary resp =
     (case resp of
        Inl e \<Rightarrow> Inl e
      | Inr r \<Rightarrow>
          if ok r then
            (case json r of
               Inl e \<Rightarrow> Inl e
             | Inr None \<Rightarrow> Inl TypeError
             | Inr (Some summaryData) \<Rightarrow>
                 Inr (Some \<lparr>items = items summaryData, updated = updated summaryData\<rparr>))
          else Inr None)"

text \<open>
  \<^verbatim>\<open>fetchAlchemyData\<close>, \<^verbatim>\<open>fetchDipDetectionData\<close>, \<^verbatim>\<open>fetchVolatilityData\<close>,
  \<^verbatim>\<open>fetchVolumeProfileData\<close>, \<^verbatim>\<open>fetchConfluenceData\<close> and \<^verbatim>\<open>fetchRecipeArbitrageData\<close>
  have the same body up to the two URLs, the User-Agent header and the log texts. The
  outer \<^verbatim>\<open>catch\<close> logs and falls through to the final
  \<^verbatim>\<open>return { items: [], updated: null }\<close>. The result is an \<open>error + _\<close> so that
  "does not raise" is a statement about the model.
\<close>

definition fetchSummaryData :: "'r network \<Rightarrow> (error + 'r summary) \<times> endpoint list" where
  "fetchSummaryData net =
     (let (resp, requests) = githubResponse net in
      ((case (case readSummary resp of Inl e \<Rightarrow> Inr None | Inr v \<Rightarrow> Inr v) of
          Inl e \<Rightarrow> Inl e
        | Inr (Some result) \<Rightarrow> Inr result
        | Inr None \<Rightarrow> Inr \<lparr>items = Arr [], updated = Null\<rparr>),
       requests))"

section \<open>Result Cache and responses\<close>

definition CACHE_DURATION :: int where
  "CACHE_DURATION = 5 * 1000"

text \<open>The module variable \<^verbatim>\<open>let xCache: { data: X[]; timestamp: number } | null\<close>.\<close>

record 'o cacheEntry =
  c_data :: "'o list"
  c_timestamp :: timestamp

type_synonym 'o cache = "'o cacheEntry option"

text \<open>
  The test \<^verbatim>\<open>xCache && now - xCache.timestamp < CACHE_DURATION\<close>: the entry when the
  test holds.
\<close>

definition fresh :: "int \<Rightarrow> timestamp \<Rightarrow> bool" where
  "fresh now ts = (case ts of Millis t \<Rightarrow> now - t < CACHE_DURATION | NaN \<Rightarrow> False)"

definition freshEntry :: "int \<Rightarrow> 'o cache \<Rightarrow> 'o cacheEntry option" where
  "freshEntry now cache =
     (case cache of None \<Rightarrow> None | Some c \<Rightarrow> if fresh now (c_timestamp c) then Some c else None)"

text \<open>
  What \<^verbatim>\<open>NextResponse.json(body, { status })\<close> sends: the status and the keys of the
  body. A key the body does not have is \<open>None\<close> (\<open>Undefined\<close> for \<^verbatim>\<open>dataUpdated\<close>).
\<close>

record 'o response =
  http_status :: nat
  success :: bool
  data :: "'o list option"
  timestamp :: "timestamp option"
  dataUpdated :: updated
  cached :: "bool option"
  count :: "nat option"
  error :: "string option"
  metadata :: "(string \<times> string) list option"

text \<open>The body of every \<^verbatim>\<open>catch (error)\<close> block of a \<^verbatim>\<open>GET\<close>, up to the message.\<close>

definition errorResponse :: "string \<Rightarrow> int \<Rightarrow> 'o response" where
  "errorResponse message now =
     \<lparr>http_status = 500, success = False, data = None, timestamp = Some (Millis now),
      dataUpdated = Undefined, cached = None, count = None, error = Some message,
      metadata = None\<rparr>"

section \<open>Normalizers\<close>

text \<open>
  Each \<^verbatim>\<open>processXData\<close> is \<^verbatim>\<open>data.map(callback)\<close>; the callback is given a name here.
  Record fields carry a prefix per interface, since several interfaces share field
  names: \<open>ra_\<close>, \<open>rd_\<close>, \<open>rv_\<close>, \<open>rp_\<close>, \<open>rc_\<close>, \<open>rr_\<close> for the raw records of the alchemy,
  dip, volatility, volume-profile, confluence and recipe routes, and \<open>alch_\<close>, \<open>dip_\<close>,
  \<open>vol_\<close>, \<open>vp_\<close>, \<open>conf_\<close>, \<open>rec_\<close> for their opportunities.
\<close>

subsection \<open>alchemy-floors\<close>

record RawAlchemyData =
  ra_id :: "number option"
  ra_ItemName :: "string option"
  ra_LowPrice :: "number option"
  ra_PriceFloor :: "number option"
  ra_BuyLimit :: "number option"
  ra_pctROI :: "number option"

record AlchemyOpportunity =
  alch_id :: string
  alch_name :: string
  alch_members :: bool
  alch_icon :: string
  alch_currentLow :: number
  alch_priceFloor :: number
  alch_buyLimit :: number
  alch_potentialProfit :: number
  alch_roi :: number
  alch_alchPrice :: number
  alch_natureRuneCost :: number
  alch_tax :: number
  alch_liquidityRisk :: number
  alch_capitalRisk :: number
  alch_overallRisk :: number

text \<open>
  \<^verbatim>\<open>Math.floor((item.PriceFloor || 0) * 0.01)\<close> is taken with the exact factor \<open>1/100\<close>.
\<close>

definition alchemyItem :: "RawAlchemyData \<Rightarrow> nat \<Rightarrow> AlchemyOpportunity" where
  "alchemyItem item index =
     \<lparr>alch_id = ''alchemy-'' @ string_of_nat index,
      alch_name = str_or (ra_ItemName item) ''Unknown Item'',
      alch_members = True,
      alch_icon = [],
      alch_currentLow = num_or (ra_LowPrice item) 0,
      alch_priceFloor = num_or (ra_PriceFloor item) 0,
      alch_buyLimit = num_or (ra_BuyLimit item) 0,
      alch_potentialProfit = num_or (ra_PriceFloor item) 0 - num_or (ra_LowPrice item) 0,
      alch_roi = num_or (ra_pctROI item) 0,
      alch_alchPrice = num_or (ra_PriceFloor item) 0,
      alch_natureRuneCost = 170,
      alch_tax = of_int \<lfloor>num_or (ra_PriceFloor item) 0 * (1 / 100)\<rfloor>,
      alch_liquidityRisk = 1,
      alch_capitalRisk = (if num_or (ra_LowPrice item) 0 > 1000000 then 2 else 1),
      alch_overallRisk = 2\<rparr>"

definition processAlchemyData :: "RawAlchemyData jsitems \<Rightarrow> error + AlchemyOpportunity list" where
  "processAlchemyData rows = js_map alchemyItem rows"

subsection \<open>dip-detection\<close>

record RawDipData =
  rd_id :: "number option"
  rd_ItemName :: "string option"
  rd_LowPrice :: "number option"
  rd_AvgLow :: "number option"
  rd_BuyLimit :: "number option"
  rd_pctROI :: "number option"

record DipOpportunity =
  dip_id :: number
  dip_name :: string
  dip_members :: bool
  dip_icon :: string
  dip_currentLow :: number
  dip_currentHigh :: number
  dip_avg24hLow :: number
  dip_avg1hLow :: number
  dip_avg5mLow :: number
  dip_dipMagnitude :: number
  dip_dipMagnitudePercent :: number
  dip_dipRecency :: number
  dip_dipRecencyPercent :: number
  dip_volume24hTotal :: number
  dip_volume1hTotal :: number
  dip_volume5mTotal :: number
  dip_volumeSurge :: number
  dip_buyLimit :: number
  dip_potentialProfit :: number
  dip_maxProfit4h :: number
  dip_roi :: number
  dip_historicalSupport :: bool
  dip_volumeConsistency :: number
  dip_riskScore :: number

text \<open>The callback of \<^verbatim>\<open>processDipData\<close> takes the item only; the index is not used.\<close>

definition dipItem :: "RawDipData \<Rightarrow> nat \<Rightarrow> DipOpportunity" where
  "dipItem item index =
     \<lparr>dip_id = num_or (rd_id item) 0,
      dip_name = str_or (rd_ItemName item) ''Unknown Item'',
      dip_members = True,
      dip_icon = [],
      dip_currentLow = num_or (rd_LowPrice item) 0,
      dip_currentHigh = num_or (rd_LowPrice item) 0,
      dip_avg24hLow = num_or (rd_AvgLow item) 0,
      dip_avg1hLow = num_or (rd_AvgLow item) 0,
      dip_avg5mLow = num_or (rd_AvgLow item) 0,
      dip_dipMagnitude = num_or (rd_AvgLow item) 0 - num_or (rd_LowPrice item) 0,
      dip_dipMagnitudePercent = num_or (rd_pctROI item) 0,
      dip_dipRecency = 0,
      dip_dipRecencyPercent = 0,
      dip_volume24hTotal = 1000,
      dip_volume1hTotal = 100,
      dip_volume5mTotal = 10,
      dip_volumeSurge = 1,
      dip_buyLimit = num_or (rd_BuyLimit item) 0,
      dip_potentialProfit = num_or (rd_AvgLow item) 0 - num_or (rd_LowPrice item) 0,
      dip_maxProfit4h =
        (num_or (rd_AvgLow item) 0 - num_or (rd_LowPrice item) 0) * num_or (rd_BuyLimit item) 0,
      dip_roi = num_or (rd_pctROI item) 0,
      dip_historicalSupport = True,
      dip_volumeConsistency = 8 / 10,
      dip_riskScore = 2\<rparr>"

definition processDipData :: "RawDipData jsitems \<Rightarrow> error + DipOpportunity list" where
  "processDipData rows = js_map dipItem rows"

subsection \<open>volatility-breakout\<close>

record RawVolatilityData =
  rv_ItemName :: "string option"
  rv_CurrentPrice :: "number option"
  rv_BuyLimit :: "number option"
  rv_DailyRange :: "number option"
  rv_WeeklyRange :: "number option"
  rv_MonthlyRange :: "number option"
  rv_CompressionRatio :: "number option"
  rv_BreakoutDirection :: "string option"
  rv_VolumeConfirmation :: "string option"
  rv_PotentialBreakoutProfit :: "number option"
  rv_CompressionLevel :: "string option"

record VolatilityOpportunity =
  vol_id :: number
  vol_name :: string
  vol_currentPrice :: number
  vol_buyLimit :: number
  vol_dailyRange :: number
  vol_weeklyRange :: number
  vol_monthlyRange :: number
  vol_compressionRatio :: number
  vol_breakoutDirection :: string
  vol_volumeConfirmation :: string
  vol_potentialBreakoutProfit :: number
  vol_compressionLevel :: string

definition volatilityItem :: "RawVolatilityData \<Rightarrow> nat \<Rightarrow> VolatilityOpportunity" where
  "volatilityItem item index =
     \<lparr>vol_id = of_nat index + 1,
      vol_name = str_or (rv_ItemName item) ''Unknown Item'',
      vol_currentPrice = num_or (rv_CurrentPrice item) 0,
      vol_buyLimit = num_or (rv_BuyLimit item) 0,
      vol_dailyRange = num_or (rv_DailyRange item) 0,
      vol_weeklyRange = num_or (rv_WeeklyRange item) 0,
      vol_monthlyRange = num_or (rv_MonthlyRange item) 0,
      vol_compressionRatio = num_or (rv_CompressionRatio item) 0,
      vol_breakoutDirection = str_or (rv_BreakoutDirection item) ''NEUTRAL'',
      vol_volumeConfirmation = str_or (rv_VolumeConfirmation item) ''LOW_VOLUME'',
      vol_potentialBreakoutProfit = num_or (rv_PotentialBreakoutProfit item) 0,
      vol_compressionLevel = str_or (rv_CompressionLevel item) ''LOW_COMPRESSION''\<rparr>"

definition processVolatilityData ::
  "RawVolatilityData jsitems \<Rightarrow> error + VolatilityOpportunity list" where
  "processVolatilityData rows = js_map volatilityItem rows"

subsection \<open>volume-profile\<close>

record RawVolumeData =
  rp_ItemName :: "string option"
  rp_CurrentPrice :: "number option"
  rp_CurrentHigh :: "number option"
  rp_BuyLimit :: "number option"
  rp_LowPriceVolume :: "number option"
  rp_HighPriceVolume :: "number option"
  rp_WeeklyLowVolume :: "number option"
  rp_WeeklyHighVolume :: "number option"
  rp_VolumeImbalanceRatio :: "number option"
  rp_VolumePattern :: "string option"
  rp_VolumeSurge :: "string option"
  rp_SmartMoneySignal :: "string option"
  rp_AccumulationProfit :: "number option"

record VolumeProfileOpportunity =
  vp_id :: number
  vp_name :: string
  vp_currentPrice :: number
  vp_currentHigh :: number
  vp_buyLimit :: number
  vp_lowPriceVolume :: number
  vp_highPriceVolume :: number
  vp_weeklyLowVolume :: number
  vp_weeklyHighVolume :: number
  vp_volumeImbalanceRatio :: number
  vp_volumePattern :: string
  vp_volumeSurge :: string
  vp_smartMoneySignal :: string
  vp_accumulationProfit :: number

definition volumeProfileItem :: "RawVolumeData \<Rightarrow> nat \<Rightarrow> VolumeProfileOpportunity" where
  "volumeProfileItem item index =
     \<lparr>vp_id = of_nat index + 1,
      vp_name = str_or (rp_ItemName item) ''Unknown Item'',
      vp_currentPrice = num_or (rp_CurrentPrice item) 0,
      vp_currentHigh = num_or (rp_CurrentHigh item) 0,
      vp_buyLimit = num_or (rp_BuyLimit item) 0,
      vp_lowPriceVolume = num_or (rp_LowPriceVolume item) 0,
      vp_highPriceVolume = num_or (rp_HighPriceVolume item) 0,
      vp_weeklyLowVolume = num_or (rp_WeeklyLowVolume item) 0,
      vp_weeklyHighVolume = num_or (rp_WeeklyHighVolume item) 0,
      vp_volumeImbalanceRatio = num_or (rp_VolumeImbalanceRatio item) 0,
      vp_volumePattern = str_or (rp_VolumePattern item) ''BALANCED'',
      vp_volumeSurge = str_or (rp_VolumeSurge item) ''NORMAL_VOLUME'',
      vp_smartMoneySignal = str_or (rp_SmartMoneySignal item) ''NO_SMART_MONEY_SIGNAL'',
      vp_accumulationProfit = num_or (rp_AccumulationProfit item) 0\<rparr>"

definition processVolumeProfileData ::
  "RawVolumeData jsitems \<Rightarrow> error + VolumeProfileOpportunity list" where
  "processVolumeProfileData rows = js_map volumeProfileItem rows"

subsection \<open>confluence\<close>

record RawConfluenceData =
  rc_ItemName :: "string option"
  rc_CurrentPrice :: "number option"
  rc_BuyLimit :: "number option"
  rc_FiveMinMean :: "number option"
  rc_HourlyMean :: "number option"
  rc_DailyMean :: "number option"
  rc_WeeklyMean :: "number option"
  rc_MonthlyMean :: "number option"
  rc_BullishConfluence :: "number option"
  rc_BearishConfluence :: "number option"
  rc_SignalStrength :: "string option"
  rc_VolumeConfirmation :: "string option"
  rc_PotentialProfit :: "number option"

record ConfluenceOpportunity =
  conf_id :: number
  conf_name :: string
  conf_currentPrice :: number
  conf_buyLimit :: number
  conf_fiveMinMean :: number
  conf_hourlyMean :: number
  conf_dailyMean :: number
  conf_weeklyMean :: number
  conf_monthlyMean :: number
  conf_bullishConfluence :: number
  conf_bearishConfluence :: number
  conf_signalStrength :: string
  conf_volumeConfirmation :: string
  conf_potentialProfit :: number

definition confluenceItem :: "RawConfluenceData \<Rightarrow> nat \<Rightarrow> ConfluenceOpportunity" where
  "confluenceItem item index =
     \<lparr>conf_id = of_nat index + 1,
      conf_name = str_or (rc_ItemName item) ''Unknown Item'',
      conf_currentPrice = num_or (rc_CurrentPrice item) 0,
      conf_buyLimit = num_or (rc_BuyLimit item) 0,
      conf_fiveMinMean = num_or (rc_FiveMinMean item) 0,
      conf_hourlyMean = num_or (rc_HourlyMean item) 0,
      conf_dailyMean = num_or (rc_DailyMean item) 0,
      conf_weeklyMean = num_or (rc_WeeklyMean item) 0,
      conf_monthlyMean = num_or (rc_MonthlyMean item) 0,
      conf_bullishConfluence = num_or (rc_BullishConfluence item) 0,
      conf_bearishConfluence = num_or (rc_BearishConfluence item) 0,
      conf_signalStrength = str_or (rc_SignalStrength item) ''MIXED_SIGNALS'',
      conf_volumeConfirmation = str_or (rc_VolumeConfirmation item) ''WEAK_VOLUME'',
      conf_potentialProfit = num_or (rc_PotentialProfit item) 0\<rparr>"

definition processConfluenceData ::
  "RawConfluenceData jsitems \<Rightarrow> error + ConfluenceOpportunity list" where
  "processConfluenceData rows = js_map confluenceItem rows"

subsection \<open>recipe-arbitrage\<close>

record RawRecipeData =
  rr_ProductName :: "string option"
  rr_ProductPrice :: "number option"
  rr_ProductBuyLimit :: "number option"
  rr_Ingredient1Name :: "string option"
  rr_Ingredient1Price :: "number option"
  rr_Ingredient1Qty :: "string option"
  rr_Ingredient2Name :: "string option"
  rr_Ingredient2Price :: "number option"
  rr_Ingredient2Qty :: "string option"
  rr_Ingredient3Name :: "string option"
  rr_Ingredient3Price :: "number option"
  rr_Ingredient3Qty :: "string option"
  rr_TotalIngredientCost :: "number option"
  rr_ProfitPerCraft :: "number option"
  rr_ROI :: "number option"
  rr_RecipeType :: "string option"
  rr_QtyProduced :: "number option"
  rr_LiquidityLevel :: "string option"

record RecipeArbitrageOpportunity =
  rec_id :: number
  rec_productName :: string
  rec_productPrice :: number
  rec_productBuyLimit :: number
  rec_ingredient1Name :: string
  rec_ingredient1Price :: number
  rec_ingredient1Qty :: string
  rec_ingredient2Name :: string
  rec_ingredient2Price :: number
  rec_ingredient2Qty :: string
  rec_ingredient3Name :: string
  rec_ingredient3Price :: number
  rec_ingredient3Qty :: string
  rec_totalIngredientCost :: number
  rec_profitPerCraft :: number
  rec_roi :: number
  rec_recipeType :: string
  rec_qtyProduced :: number
  rec_liquidityLevel :: string

definition recipeItem :: "RawRecipeData \<Rightarrow> nat \<Rightarrow> RecipeArbitrageOpportunity" where
  "recipeItem item index =
     \<lparr>rec_id = of_nat index + 1,
      rec_productName = str_or (rr_ProductName item) ''Unknown Product'',
      rec_productPrice = num_or (rr_ProductPrice item) 0,
      rec_productBuyLimit = num_or (rr_ProductBuyLimit item) 0,
      rec_ingredient1Name = str_or (rr_Ingredient1Name item) [],
      rec_ingredient1Price = num_or (rr_Ingredient1Price item) 0,
      rec_ingredient1Qty = str_or (rr_Ingredient1Qty item) [],
      rec_ingredient2Name = str_or (rr_Ingredient2Name item) [],
      rec_ingredient2Price = num_or (rr_Ingredient2Price item) 0,
      rec_ingredient2Qty = str_or (rr_Ingredient2Qty item) [],
      rec_ingredient3Name = str_or (rr_Ingredient3Name item) [],
      rec_ingredient3Price = num_or (rr_Ingredient3Price item) 0,
      rec_ingredient3Qty = str_or (rr_Ingredient3Qty item) [],
      rec_totalIngredientCost = num_or (rr_TotalIngredientCost item) 0,
      rec_profitPerCraft = num_or (rr_ProfitPerCraft item) 0,
      rec_roi = num_or (rr_ROI item) 0,
      rec_recipeType = str_or (rr_RecipeType item) [],
      rec_qtyProduced = num_or (rr_QtyProduced item) 0,
      rec_liquidityLevel = str_or (rr_LiquidityLevel item) ''LOW_LIQUIDITY''\<rparr>"

definition processRecipeArbitrageData ::
  "RawRecipeData jsitems \<Rightarrow> error + RecipeArbitrageOpportunity list" where
  "processRecipeArbitrageData rows = js_map recipeItem rows"

section \<open>The route handlers\<close>

text \<open>
  Each route module exports one \<^verbatim>\<open>GET\<close>; here it carries the category's name. Its
  arguments are the date parser, the two readings of the clock (\<open>now\<close> at the top of the
  \<^verbatim>\<open>try\<close>, \<open>later\<close> in the \<^verbatim>\<open>catch\<close>), the network and the module's cache variable; it
  returns the response and the cache variable afterwards. An exception raised inside the
  \<^verbatim>\<open>try\<close> leaves it at once, so the assignment to the cache is not reached. The
  exceptions of the model are those of the fetch function (none leaves it) and of the
  normalizer; the bodies handed to \<^verbatim>\<open>NextResponse.json\<close> hold numbers, strings, booleans,
  \<^verbatim>\<open>null\<close> and arrays of such records, which always serialize.
\<close>

definition alchemyMetadata :: "(string \<times> string) list" where
  "alchemyMetadata =
     [(''description'', ''High alchemy opportunities using VeryGranular research methodology''),
      (''strategy'', ''Buy items below alch value, high alch for guaranteed profit''),
      (''riskLevel'', ''Low - guaranteed profit from NPCs''),
      (''methodology'', ''VeryGranular'')]"

subsection \<open>alchemy-floors\<close>

definition fetchAlchemyData :: "RawAlchemyData network \<Rightarrow> (error + RawAlchemyData summary) \<times> endpoint list" where
  "fetchAlchemyData net = fetchSummaryData net"

definition GET_alchemy ::
  "(string \<Rightarrow> timestamp) \<Rightarrow> int \<Rightarrow> int \<Rightarrow> RawAlchemyData network \<Rightarrow> AlchemyOpportunity cache
     \<Rightarrow> AlchemyOpportunity response \<times> AlchemyOpportunity cache" where
  "GET_alchemy getTime now later net alchemyCache =
     (case freshEntry now alchemyCache of
        Some entry \<Rightarrow>
          (\<lparr>http_status = 200, success = True, data = Some (c_data entry),
            timestamp = Some (c_timestamp entry), dataUpdated = Undefined,
            cached = Some True, count = None, error = None,
            metadata = None\<rparr>,
           alchemyCache)
      | None \<Rightarrow>
          (case fst (fetchAlchemyData net) of
             Inl e \<Rightarrow> (errorResponse ''Failed to analyze alchemy opportunities'' later, alchemyCache)
           | Inr alchemyResult \<Rightarrow>
               (case processAlchemyData (items alchemyResult) of
                  Inl e \<Rightarrow> (errorResponse ''Failed to analyze alchemy opportunities'' later, alchemyCache)
                | Inr opportunities \<Rightarrow>
                    (let dataTimestamp =
                           (if truthy (updated alchemyResult)
                            then Date_getTime getTime (updated alchemyResult) else Millis now)
                     in (\<lparr>http_status = 200, success = True, data = Some opportunities,
                           timestamp = Some dataTimestamp,
                           dataUpdated = updated alchemyResult, cached = Some False,
                           count = Some (length opportunities), error = None,
                           metadata = Some alchemyMetadata\<rparr>,
                         Some \<lparr>c_data = opportunities, c_timestamp = dataTimestamp\<rparr>)))))"

subsection \<open>dip-detection\<close>

definition fetchDipDetectionData :: "RawDipData network \<Rightarrow> (error + RawDipData summary) \<times> endpoint list" where
  "fetchDipDetectionData net = fetchSummaryData net"

definition GET_dip ::
  "(string \<Rightarrow> timestamp) \<Rightarrow> int \<Rightarrow> int \<Rightarrow> RawDipData network \<Rightarrow> DipOpportunity cache
     \<Rightarrow> DipOpportunity response \<times> DipOpportunity cache" where
  "GET_dip getTime now later net dipCache =
     (case freshEntry now dipCache of
        Some entry \<Rightarrow>
          (\<lparr>http_status = 200, success = True, data = Some (c_data entry),
            timestamp = Some (c_timestamp entry), dataUpdated = Undefined,
            cached = Some True, count = None, error = None,
            metadata = None\<rparr>,
           dipCache)
      | None \<Rightarrow>
          (case fst (fetchDipDetectionData net) of
             Inl e \<Rightarrow> (errorResponse ''Failed to detect price dips'' later, dipCache)
           | Inr dipResult \<Rightarrow>
               (case processDipData (items dipResult) of
                  Inl e \<Rightarrow> (errorResponse ''Failed to detect price dips'' later, dipCache)
                | Inr dips \<Rightarrow>
                    (let dataTimestamp =
                           (if truthy (updated dipResult)
                            then Date_getTime getTime (updated dipResult) else Millis now)
                     in (\<lparr>http_status = 200, success = True, data = Some dips,
                           timestamp = Some dataTimestamp,
                           dataUpdated = updated dipResult, cached = Some False,
                           count = Some (length dips), error = None,
                           metadata = None\<rparr>,
                         Some \<lparr>c_data = dips, c_timestamp = dataTimestamp\<rparr>)))))"

subsection \<open>volatility-breakout\<close>

definition fetchVolatilityData :: "RawVolatilityData network \<Rightarrow> (error + RawVolatilityData summary) \<times> endpoint list" where
  "fetchVolatilityData net = fetchSummaryData net"

definition GET_volatility ::
  "(string \<Rightarrow> timestamp) \<Rightarrow> int \<Rightarrow> int \<Rightarrow> RawVolatilityData network \<Rightarrow> VolatilityOpportunity cache
     \<Rightarrow> VolatilityOpportunity response \<times> VolatilityOpportunity cache" where
  "GET_volatility getTime now later net volatilityCache =
     (case freshEntry now volatilityCache of
        Some entry \<Rightarrow>
          (\<lparr>http_status = 200, success = True, data = Some (c_data entry),
            timestamp = Some (c_timestamp entry), dataUpdated = Undefined,
            cached = Some True, count = Some (length (c_data entry)), error = None,
            metadata = None\<rparr>,
           volatilityCache)
      | None \<Rightarrow>
          (case fst (fetchVolatilityData net) of
             Inl e \<Rightarrow> (errorResponse ''Failed to fetch volatility breakout data'' later, volatilityCache)
           | Inr volatilityResult \<Rightarrow>
               (case processVolatilityData (items volatilityResult) of
                  Inl e \<Rightarrow> (errorResponse ''Failed to fetch volatility breakout data'' later, volatilityCache)
                | Inr opportunities \<Rightarrow>
                    (let dataTimestamp =
                           (if truthy (updated volatilityResult)
                            then Date_getTime getTime (updated volatilityResult) else Millis now)
                     in (\<lparr>http_status = 200, success = True, data = Some opportunities,
                           timestamp = Some dataTimestamp,
                           dataUpdated = updated volatilityResult, cached = Some False,
                           count = Some (length opportunities), error = None,
                           metadata = None\<rparr>,
                         Some \<lparr>c_data = opportunities, c_timestamp = dataTimestamp\<rparr>)))))"

subsection \<open>volume-profile\<close>

definition fetchVolumeProfileData :: "RawVolumeData network \<Rightarrow> (error + RawVolumeData summary) \<times> endpoint list" where
  "fetchVolumeProfileData net = fetchSummaryData net"

definition GET_volumeProfile ::
  "(string \<Rightarrow> timestamp) \<Rightarrow> int \<Rightarrow> int \<Rightarrow> RawVolumeData network \<Rightarrow> VolumeProfileOpportunity cache
     \<Rightarrow> VolumeProfileOpportunity response \<times> VolumeProfileOpportunity cache" where
  "GET_volumeProfile getTime now later net volumeCache =
     (case freshEntry now volumeCache of
        Some entry \<Rightarrow>
          (\<lparr>http_status = 200, success = True, data = Some (c_data entry),
            timestamp = Some (c_timestamp entry), dataUpdated = Undefined,
            cached = Some True, count = Some (length (c_data entry)), error = None,
            metadata = None\<rparr>,
           volumeCache)
      | None \<Rightarrow>
          (case fst (fetchVolumeProfileData net) of
             Inl e \<Rightarrow> (errorResponse ''Failed to fetch volume profile data'' later, volumeCache)
           | Inr volumeResult \<Rightarrow>
               (case processVolumeProfileData (items volumeResult) of
                  Inl e \<Rightarrow> (errorResponse ''Failed to fetch volume profile data'' later, volumeCache)
                | Inr opportunities \<Rightarrow>
                    (let dataTimestamp =
                           (if truthy (updated volumeResult)
                            then Date_getTime getTime (updated volumeResult) else Millis now)
                     in (\<lparr>http_status = 200, success = True, data = Some opportunities,
                           timestamp = Some dataTimestamp,
                           dataUpdated = updated volumeResult, cached = Some False,
                           count = Some (length opportunities), error = None,
                           metadata = None\<rparr>,
                         Some \<lparr>c_data = opportunities, c_timestamp = dataTimestamp\<rparr>)))))"

subsection \<open>confluence\<close>

definition fetchConfluenceData :: "RawConfluenceData network \<Rightarrow> (error + RawConfluenceData summary) \<times> endpoint list" where
  "fetchConfluenceData net = fetchSummaryData net"

definition GET_confluence ::
  "(string \<Rightarrow> timestamp) \<Rightarrow> int \<Rightarrow> int \<Rightarrow> RawConfluenceData network \<Rightarrow> ConfluenceOpportunity cache
     \<Rightarrow> ConfluenceOpportunity response \<times> ConfluenceOpportunity cache" where
  "GET_confluence getTime now later net confluenceCache =
     (case freshEntry now confluenceCache of
        Some entry \<Rightarrow>
          (\<lparr>http_status = 200, success = True, data = Some (c_data entry),
            timestamp = Some (c_timestamp entry), dataUpdated = Undefined,
            cached = Some True, count = Some (length (c_data entry)), error = None,
            metadata = None\<rparr>,
           confluenceCache)
      | None \<Rightarrow>
          (case fst (fetchConfluenceData net) of
             Inl e \<Rightarrow> (errorResponse ''Failed to fetch confluence analysis data'' later, confluenceCache)
           | Inr confluenceResult \<Rightarrow>
               (case processConfluenceData (items confluenceResult) of
                  Inl e \<Rightarrow> (errorResponse ''Failed to fetch confluence analysis data'' later, confluenceCache)
                | Inr opportunities \<Rightarrow>
                    (let dataTimestamp =
                           (if truthy (updated confluenceResult)
                            then Date_getTime getTime (updated confluenceResult) else Millis now)
                     in (\<lparr>http_status = 200, success = True, data = Some opportunities,
                           timestamp = Some dataTimestamp,
                           dataUpdated = updated confluenceResult, cached = Some False,
                           count = Some (length opportunities), error = None,
                           metadata = None\<rparr>,
                         Some \<lparr>c_data = opportunities, c_timestamp = dataTimestamp\<rparr>)))))"

subsection \<open>recipe-arbitrage\<close>

definition fetchRecipeArbitrageData :: "RawRecipeData network \<Rightarrow> (error + RawRecipeData summary) \<times> endpoint list" where
  "fetchRecipeArbitrageData net = fetchSummaryData net"

definition GET_recipeArbitrage ::
  "(string \<Rightarrow> timestamp) \<Rightarrow> int \<Rightarrow> int \<Rightarrow> RawRecipeData network \<Rightarrow> RecipeArbitrageOpportunity cache
     \<Rightarrow> RecipeArbitrageOpportunity response \<times> RecipeArbitrageOpportunity cache" where
  "GET_recipeArbitrage getTime now later net recipeCache =
     (case freshEntry now recipeCache of
        Some entry \<Rightarrow>
          (\<lparr>http_status = 200, success = True, data = Some (c_data entry),
            timestamp = Some (c_timestamp entry), dataUpdated = Undefined,
            cached = Some True, count = Some (length (c_data entry)), error = None,
            metadata = None\<rparr>,
           recipeCache)
      | None \<Rightarrow>
          (case fst (fetchRecipeArbitrageData net) of
             Inl e \<Rightarrow> (errorResponse ''Failed to fetch recipe arbitrage data'' later, recipeCache)
           | Inr recipeResult \<Rightarrow>
               (case processRecipeArbitrageData (items recipeResult) of
                  Inl e \<Rightarrow> (errorResponse ''Failed to fetch recipe arbitrage data'' later, recipeCache)
                | Inr opportunities \<Rightarrow>
                    (let dataTimestamp =
                           (if truthy (updated recipeResult)
                            then Date_getTime getTime (updated recipeResult) else Millis now)
                     in (\<lparr>http_status = 200, success = True, data = Some opportunities,
                           timestamp = Some dataTimestamp,
                           dataUpdated = updated recipeResult, cached = Some False,
                           count = Some (length opportunities), error = None,
                           metadata = None\<rparr>,
                         Some \<lparr>c_data = opportunities, c_timestamp = dataTimestamp\<rparr>)))))"

section \<open>The analytics page\<close>

text \<open>
  The transform functions of \<^verbatim>\<open>page.tsx\<close> take the \<^verbatim>\<open>data\<close> array of a route's
  response, typed by the page's own \<^verbatim>\<open>Raw...\<close> interfaces (prefixes \<open>pd_\<close>, \<open>pa_\<close>,
  \<open>pv_\<close>, \<open>pp_\<close>, \<open>pc_\<close>, \<open>pr_\<close>), and build the items the tables show (prefixes \<open>di_\<close>,
  \<open>ai_\<close>, \<open>vi_\<close>, \<open>pi_\<close>, \<open>ci_\<close>, \<open>ri_\<close>).
\<close>

text \<open>\<^verbatim>\<open>xs.slice(start, end)\<close> for \<open>0 \<le> start \<le> end\<close>.\<close>

definition slice :: "nat \<Rightarrow> nat \<Rightarrow> 'a list \<Rightarrow> 'a list" where
  "slice start end xs = take (end - start) (drop start xs)"

text \<open>\<^verbatim>\<open>xs.map((item, index) => f(item, index))\<close> on an array of objects.\<close>

definition mapi :: "('a \<Rightarrow> nat \<Rightarrow> 'b) \<Rightarrow> 'a list \<Rightarrow> 'b list" where
  "mapi f xs = map (\<lambda>(index, item). f item index) (enumerate 0 xs)"

text \<open>
  \<^verbatim>\<open>formatGP\<close>; \<^verbatim>\<open>Number.prototype.toFixed\<close> is the runtime's and is a parameter. The
  first test is \<^verbatim>\<open>!amount || isNaN(amount)\<close>.
\<close>

definition formatGP :: "(nat \<Rightarrow> number \<Rightarrow> string) \<Rightarrow> number \<Rightarrow> string" where
  "formatGP toFixed amount =
     (if amount = 0 then ''0''
      else if amount \<ge> 1000000000 then toFixed 3 (amount / 1000000000) @ ''b''
      else if amount \<ge> 1000000 then toFixed 3 (amount / 1000000) @ ''m''
      else if amount \<ge> 100000 then toFixed 2 (amount / 1000) @ ''k''
      else if amount \<ge> 1000 then toFixed 3 (amount / 1000) @ ''k''
      else toFixed 3 amount)"

subsection \<open>Dips\<close>

record PageRawDipData =
  pd_id :: "number option"
  pd_name :: "string option"
  pd_currentPrice :: "number option"
  pd_currentLow :: "number option"
  pd_avgPrice24h :: "number option"
  pd_avg24hLow :: "number option"
  pd_priceDropPercent :: "number option"
  pd_dipMagnitudePercent :: "number option"
  pd_volumeSurge :: "number option"
  pd_buyLimit :: "number option"
  pd_recoveryPotential :: "number option"
  pd_potentialProfit :: "number option"
  pd_members :: "bool option"
  pd_estimatedProfit :: "number option"
  pd_maxProfit4h :: "number option"

record DipItem =
  di_id :: number
  di_name :: string
  di_currentPrice :: number
  di_avgPrice24h :: number
  di_priceDropPercent :: number
  di_volumeSpike :: number
  di_buyLimit :: number
  di_recoveryPotential :: number
  di_members :: bool
  di_buyRange :: string
  di_sellRange :: string
  di_estimatedProfit :: number

text \<open>
  The callback of each transform function is given a name (\<open>toDipItem\<close>, ...), so that a
  statement can say which record an item is made from.
\<close>

definition toDipItem :: "(nat \<Rightarrow> number \<Rightarrow> string) \<Rightarrow> PageRawDipData \<Rightarrow> DipItem" where
  "toDipItem toFixed item =
      (let currentLow = num_or (pd_currentPrice item) (num_or (pd_currentLow item) 0);
           avgLow = num_or (pd_avgPrice24h item) (num_or (pd_avg24hLow item) 0)
       in \<lparr>di_id = num_or (pd_id item) 0,
           di_name = str_or (pd_name item) ''Unknown Item'',
           di_currentPrice = currentLow,
           di_avgPrice24h = avgLow,
           di_priceDropPercent =
             num_or (pd_priceDropPercent item) (num_or (pd_dipMagnitudePercent item) 0),
           di_volumeSpike = num_or (pd_volumeSurge item) 1,
           di_buyLimit = num_or (pd_buyLimit item) 0,
           di_recoveryPotential =
             num_or (pd_recoveryPotential item) (num_or (pd_potentialProfit item) 0),
           di_members = bool_or (pd_members item) False,
           di_buyRange =
             formatGP toFixed (currentLow * (98 / 100)) @ '' - '' @
             formatGP toFixed (currentLow * (102 / 100)),
           di_sellRange =
             formatGP toFixed (avgLow * (98 / 100)) @ '' - '' @
             formatGP toFixed (avgLow * (102 / 100)),
           di_estimatedProfit =
             num_or (pd_estimatedProfit item) (num_or (pd_maxProfit4h item) 0)\<rparr>)"

definition transformDipsDataFromAPI ::
  "(nat \<Rightarrow> number \<Rightarrow> string) \<Rightarrow> PageRawDipData list \<Rightarrow> DipItem list" where
  "transformDipsDataFromAPI toFixed rows = map (toDipItem toFixed) (slice 0 50 rows)"

subsection \<open>Alchemy\<close>

record PageRawAlchemyData =
  pa_id :: "number option"
  pa_name :: "string option"
  pa_currentLow :: "number option"
  pa_priceFloor :: "number option"
  pa_alchPrice :: "number option"
  pa_potentialProfit :: "number option"
  pa_roi :: "number option"
  pa_buyLimit :: "number option"
  pa_members :: "bool option"

record AlchemyItem =
  ai_id :: number
  ai_name :: string
  ai_currentPrice :: number
  ai_priceFloor :: number
  ai_alchValue :: number
  ai_profitMargin :: number
  ai_roi :: number
  ai_buyLimit :: number
  ai_members :: bool

definition toAlchemyItem :: "PageRawAlchemyData \<Rightarrow> AlchemyItem" where
  "toAlchemyItem item =
       \<lparr>ai_id = num_or (pa_id item) 0,
        ai_name = str_or (pa_name item) ''Unknown Item'',
        ai_currentPrice = num_or (pa_currentLow item) 0,
        ai_priceFloor = num_or (pa_priceFloor item) 0,
        ai_alchValue = num_or (pa_alchPrice item) 0,
        ai_profitMargin = num_or (pa_potentialProfit item) 0,
        ai_roi = num_or (pa_roi item) 0,
        ai_buyLimit = num_or (pa_buyLimit item) 0,
        ai_members = bool_or (pa_members item) False\<rparr>"

definition transformAlchemyDataFromAPI :: "PageRawAlchemyData list \<Rightarrow> AlchemyItem list" where
  "transformAlchemyDataFromAPI rows = map toAlchemyItem (slice 0 50 rows)"

subsection \<open>Volatility\<close>

record PageRawVolatilityData =
  pv_id :: "number option"
  pv_name :: "string option"
  pv_currentPrice :: "number option"
  pv_buyLimit :: "number option"
  pv_compressionRatio :: "number option"
  pv_breakoutDirection :: "string option"
  pv_volumeConfirmation :: "string option"
  pv_potentialBreakoutProfit :: "number option"
  pv_compressionLevel :: "string option"

record VolatilityItem =
  vi_id :: number
  vi_name :: string
  vi_currentPrice :: number
  vi_buyLimit :: number
  vi_compressionRatio :: number
  vi_breakoutDirection :: string
  vi_volumeConfirmation :: string
  vi_potentialBreakoutProfit :: number
  vi_compressionLevel :: string

definition toVolatilityItem :: "PageRawVolatilityData \<Rightarrow> nat \<Rightarrow> VolatilityItem" where
  "toVolatilityItem item index =
       \<lparr>vi_id = num_or (pv_id item) (of_nat index + 1),
        vi_name = str_or (pv_name item) ''Unknown Item'',
        vi_currentPrice = num_or (pv_currentPrice item) 0,
        vi_buyLimit = num_or (pv_buyLimit item) 0,
        vi_compressionRatio = num_or (pv_compressionRatio item) 0,
        vi_breakoutDirection = str_or (pv_breakoutDirection item) ''NEUTRAL'',
        vi_volumeConfirmation = str_or (pv_volumeConfirmation item) ''LOW_VOLUME'',
        vi_potentialBreakoutProfit = num_or (pv_potentialBreakoutProfit item) 0,
        vi_compressionLevel = str_or (pv_compressionLevel item) ''LOW_COMPRESSION''\<rparr>"

definition transformVolatilityDataFromAPI ::
  "PageRawVolatilityData list \<Rightarrow> VolatilityItem list" where
  "transformVolatilityDataFromAPI rows = mapi toVolatilityItem (slice 0 50 rows)"

subsection \<open>Volume profile\<close>

record PageRawVolumeProfileData =
  pp_id :: "number option"
  pp_name :: "string option"
  pp_currentPrice :: "number option"
  pp_buyLimit :: "number option"
  pp_volumePattern :: "string option"
  pp_volumeSurge :: "string option"
  pp_smartMoneySignal :: "string option"
  pp_accumulationProfit :: "number option"

record VolumeProfileItem =
  pi_id :: number
  pi_name :: string
  pi_currentPrice :: number
  pi_buyLimit :: number
  pi_volumePattern :: string
  pi_volumeSurge :: string
  pi_smartMoneySignal :: string
  pi_accumulationProfit :: number

definition toVolumeProfileItem :: "PageRawVolumeProfileData \<Rightarrow> nat \<Rightarrow> VolumeProfileItem" where
  "toVolumeProfileItem item index =
       \<lparr>pi_id = num_or (pp_id item) (of_nat index + 1),
        pi_name = str_or (pp_name item) ''Unknown Item'',
        pi_currentPrice = num_or (pp_currentPrice item) 0,
        pi_buyLimit = num_or (pp_buyLimit item) 0,
        pi_volumePattern = str_or (pp_volumePattern item) ''BALANCED'',
        pi_volumeSurge = str_or (pp_volumeSurge item) ''NORMAL_VOLUME'',
        pi_smartMoneySignal = str_or (pp_smartMoneySignal item) ''NO_SMART_MONEY_SIGNAL'',
        pi_accumulationProfit = num_or (pp_accumulationProfit item) 0\<rparr>"

definition transformVolumeProfileDataFromAPI ::
  "PageRawVolumeProfileData list \<Rightarrow> VolumeProfileItem list" where
  "transformVolumeProfileDataFromAPI rows = mapi toVolumeProfileItem (slice 0 50 rows)"

subsection \<open>Confluence\<close>

record PageRawConfluenceData =
  pc_id :: "number option"
  pc_name :: "string option"
  pc_currentPrice :: "number option"
  pc_buyLimit :: "number option"
  pc_bullishConfluence :: "number option"
  pc_bearishConfluence :: "number option"
  pc_signalStrength :: "string option"
  pc_volumeConfirmation :: "string option"
  pc_potentialProfit :: "number option"

record ConfluenceItem =
  ci_id :: number
  ci_name :: string
  ci_currentPrice :: number
  ci_buyLimit :: number
  ci_bullishConfluence :: number
  ci_bearishConfluence :: number
  ci_signalStrength :: string
  ci_volumeConfirmation :: string
  ci_potentialProfit :: number

definition toConfluenceItem :: "PageRawConfluenceData \<Rightarrow> nat \<Rightarrow> ConfluenceItem" where
  "toConfluenceItem item index =
       \<lparr>ci_id = num_or (pc_id item) (of_nat index + 1),
        ci_name = str_or (pc_name item) ''Unknown Item'',
        ci_currentPrice = num_or (pc_currentPrice item) 0,
        ci_buyLimit = num_or (pc_buyLimit item) 0,
        ci_bullishConfluence = num_or (pc_bullishConfluence item) 0,
        ci_bearishConfluence = num_or (pc_bearishConfluence item) 0,
        ci_signalStrength = str_or (pc_signalStrength item) ''MIXED_SIGNALS'',
        ci_volumeConfirmation = str_or (pc_volumeConfirmation item) ''WEAK_VOLUME'',
        ci_potentialProfit = num_or (pc_potentialProfit item) 0\<rparr>"

definition transformConfluenceDataFromAPI ::
  "PageRawConfluenceData list \<Rightarrow> ConfluenceItem list" where
  "transformConfluenceDataFromAPI rows = mapi toConfluenceItem (slice 0 50 rows)"

subsection \<open>Recipe arbitrage\<close>

record PageRawRecipeArbitrageData =
  pr_id :: "number option"
  pr_productName :: "string option"
  pr_productPrice :: "number option"
  pr_productBuyLimit :: "number option"
  pr_ingredient1Name :: "string option"
  pr_totalIngredientCost :: "number option"
  pr_profitPerCraft :: "number option"
  pr_roi :: "number option"
  pr_recipeType :: "string option"
  pr_liquidityLevel :: "string option"

record RecipeArbitrageItem =
  ri_id :: number
  ri_productName :: string
  ri_productPrice :: number
  ri_productBuyLimit :: number
  ri_ingredient1Name :: string
  ri_totalIngredientCost :: number
  ri_profitPerCraft :: number
  ri_roi :: number
  ri_recipeType :: string
  ri_liquidityLevel :: string

definition toRecipeArbitrageItem :: "PageRawRecipeArbitrageData \<Rightarrow> nat \<Rightarrow> RecipeArbitrageItem" where
  "toRecipeArbitrageItem item index =
       \<lparr>ri_id = num_or (pr_id item) (of_nat index + 1),
        ri_productName = str_or (pr_productName item) ''Unknown Product'',
        ri_productPrice = num_or (pr_productPrice item) 0,
        ri_productBuyLimit = num_or (pr_productBuyLimit item) 0,
        ri_ingredient1Name = str_or (pr_ingredient1Name item) [],
        ri_totalIngredientCost = num_or (pr_totalIngredientCost item) 0,
        ri_profitPerCraft = num_or (pr_profitPerCraft item) 0,
        ri_roi = num_or (pr_roi item) 0,
        ri_recipeType = str_or (pr_recipeType item) [],
        ri_liquidityLevel = str_or (pr_liquidityLevel item) ''LOW_LIQUIDITY''\<rparr>"

definition transformRecipeArbitrageDataFromAPI ::
  "PageRawRecipeArbitrageData list \<Rightarrow> RecipeArbitrageItem list" where
  "transformRecipeArbitrageDataFromAPI rows = mapi toRecipeArbitrageItem (slice 0 50 rows)"

subsection \<open>Tables\<close>

text \<open>
  Every table component renders \<^verbatim>\<open>data.slice(0, 20).map((item, index) => <tr ...>)\<close>.
  A row is modelled by the rank it prints (\<^verbatim>\<open>#{index + 1}\<close>) and the item it shows.
\<close>

definition DipsTable :: "DipItem list \<Rightarrow> (nat \<times> DipItem) list" where
  "DipsTable rows = mapi (\<lambda>item index. (index + 1, item)) (slice 0 20 rows)"

definition AlchemyTable :: "AlchemyItem list \<Rightarrow> (nat \<times> AlchemyItem) list" where
  "AlchemyTable rows = mapi (\<lambda>item index. (index + 1, item)) (slice 0 20 rows)"

definition VolatilityTable :: "VolatilityItem list \<Rightarrow> (nat \<times> VolatilityItem) list" where
  "VolatilityTable rows = mapi (\<lambda>item index. (index + 1, item)) (slice 0 20 rows)"

definition VolumeProfileTable ::
  "VolumeProfileItem list \<Rightarrow> (nat \<times> VolumeProfileItem) list" where
  "VolumeProfileTable rows = mapi (\<lambda>item index. (index + 1, item)) (slice 0 20 rows)"

definition ConfluenceTable :: "ConfluenceItem list \<Rightarrow> (nat \<times> ConfluenceItem) list" where
  "ConfluenceTable rows = mapi (\<lambda>item index. (index + 1, item)) (slice 0 20 rows)"

definition RecipeArbitrageTable ::
  "RecipeArbitrageItem list \<Rightarrow> (nat \<times> RecipeArbitrageItem) list" where
  "RecipeArbitrageTable rows = mapi (\<lambda>item index. (index + 1, item)) (slice 0 20 rows)"

subsection \<open>The unified "data as of" timestamp\<close>

text \<open>
  \<^verbatim>\<open>Math.max(a, b)\<close> is \<open>NaN\<close> as soon as one argument is. \<open>Math_max t ts\<close> is the
  spread call \<^verbatim>\<open>Math.max(...[t, ...ts])\<close> with at least one argument.
\<close>

fun max2 :: "timestamp \<Rightarrow> timestamp \<Rightarrow> timestamp" where
  "max2 (Millis a) (Millis b) = Millis (max a b)"
| "max2 _ _ = NaN"

definition Math_max :: "timestamp \<Rightarrow> timestamp list \<Rightarrow> timestamp" where
  "Math_max t ts = fold (\<lambda>x acc. max2 acc x) ts t"

text \<open>
  Lines 379-394 of \<^verbatim>\<open>fetchData\<close>: the six \<^verbatim>\<open>dataUpdated\<close> values of the parsed
  responses go through \<^verbatim>\<open>.filter(Boolean)\<close>; when one is left, the result is the date of
  the greatest \<^verbatim>\<open>getTime()\<close>, else \<^verbatim>\<open>null\<close> (\<open>None\<close>). The test
  \<^verbatim>\<open>dataTimestamps.length > 0\<close> is the case distinction on the mapped array, which has
  the same length.
\<close>

definition latestDataUpdate ::
  "(string \<Rightarrow> timestamp) \<Rightarrow> updated \<Rightarrow> updated \<Rightarrow> updated \<Rightarrow> updated \<Rightarrow> updated \<Rightarrow> updated
     \<Rightarrow> timestamp option" where
  "latestDataUpdate getTime dips alchemy volatility volumeProfile confluence recipeArbitrage =
     (let dataTimestamps =
            filter truthy [dips, alchemy, volatility, volumeProfile, confluence, recipeArbitrage]
      in case map (Date_getTime getTime) dataTimestamps of
           [] \<Rightarrow> None
         | t # ts \<Rightarrow> Some (Math_max t ts))"

section \<open>Properties and sample inputs\<close>

text \<open>
  The specification's default rule \<^verbatim>\<open>raw.field ?? d\<close>: the raw value when the field is
  present, \<open>d\<close> when it is absent.
\<close>

definition nullish :: "'a option \<Rightarrow> 'a \<Rightarrow> 'a" where
  "nullish a d = (case a of None \<Rightarrow> d | Some v \<Rightarrow> v)"

text \<open>
  A normalizer keeps length and order: on an array of \<open>N\<close> records it returns \<open>N\<close>
  opportunities, the one at position \<open>i\<close> built by the callback from the record at
  position \<open>i\<close>.
\<close>

definition order_preserved ::
  "('r jsitems \<Rightarrow> error + 'o list) \<Rightarrow> ('r \<Rightarrow> nat \<Rightarrow> 'o) \<Rightarrow> bool" where
  "order_preserved process callback \<longleftrightarrow>
     (\<forall>rs. \<exists>out. process (Arr (map Some rs)) = Inr out \<and> length out = length rs \<and>
        (\<forall>i < length rs. out ! i = callback (rs ! i) i))"

definition runeAxe :: RawAlchemyData where
  "runeAxe = \<lparr>ra_id = None, ra_ItemName = Some ''Rune axe'', ra_LowPrice = Some 100,
      ra_PriceFloor = Some 150, ra_BuyLimit = Some 8, ra_pctROI = None\<rparr>"

definition blankDip :: RawDipData where
  "blankDip = \<lparr>rd_id = None, rd_ItemName = None, rd_LowPrice = None, rd_AvgLow = None,
      rd_BuyLimit = None, rd_pctROI = None\<rparr>"

definition blankVolume :: RawVolumeData where
  "blankVolume = \<lparr>rp_ItemName = None, rp_CurrentPrice = None, rp_CurrentHigh = None,
      rp_BuyLimit = None, rp_LowPriceVolume = None, rp_HighPriceVolume = None,
      rp_WeeklyLowVolume = None, rp_WeeklyHighVolume = None, rp_VolumeImbalanceRatio = None,
      rp_VolumePattern = None, rp_VolumeSurge = None, rp_SmartMoneySignal = None,
      rp_AccumulationProfit = None\<rparr>"

text \<open>The fallback value of the fetch functions, \<^verbatim>\<open>{ items: [], updated: null }\<close>.\<close>

definition emptyResult :: "'r summary" where
  "emptyResult = \<lparr>items = Arr [], updated = Null\<rparr>"

text \<open>
  An attempt fails when the request raises or the response has a non-success status.
  The raw URL is requested a second time (\<open>retried\<close>) when the primary answered with a
  non-success status and the first request to the raw URL raised. \<open>exhausted\<close>: every
  attempt the fetcher makes fails. \<open>answers net r\<close>: \<open>r\<close> is the successful response the
  fetcher ends with, the primary's or, when the primary attempt failed, the secondary's
  (that of the second request to it when it is retried).
\<close>

definition fails :: "'r outcome \<Rightarrow> bool" where
  "fails out = (case out of Throws \<Rightarrow> True | Responds r \<Rightarrow> \<not> ok r)"

definition retried :: "'r network \<Rightarrow> bool" where
  "retried net \<longleftrightarrow> primary net \<noteq> Throws \<and> fails (primary net) \<and> secondary net = Throws"

definition exhausted :: "'r network \<Rightarrow> bool" where
  "exhausted net \<longleftrightarrow>
     fails (primary net) \<and> fails (secondary net) \<and> (retried net \<longrightarrow> fails (secondaryRetry net))"

definition answers :: "'r network \<Rightarrow> 'r http_response \<Rightarrow> bool" where
  "answers net r \<longleftrightarrow>
     ok r \<and> (primary net = Responds r \<or>
            (fails (primary net) \<and> secondary net = Responds r) \<or>
            (retried net \<and> secondaryRetry net = Responds r))"

text \<open>
  The contract of a Source Fetcher: it returns a value under every network; the value
  is the empty result when every attempt fails or the body of the answering response is
  not a JSON document; otherwise it is the document's two properties as they are.
\<close>

definition fetcher_contract :: "('r network \<Rightarrow> (error + 'r summary) \<times> endpoint list) \<Rightarrow> bool" where
  "fetcher_contract fetcher \<longleftrightarrow>
     (\<forall>net.
        (\<exists>result. fst (fetcher net) = Inr result) \<and>
        (exhausted net \<longrightarrow> fst (fetcher net) = Inr emptyResult) \<and>
        (\<forall>r. answers net r \<and> (body r = BadJson \<or> body r = JsonNull) \<longrightarrow>
           fst (fetcher net) = Inr emptyResult) \<and>
        (\<forall>r d. answers net r \<and> body r = JsonDoc d \<longrightarrow> fst (fetcher net) = Inr d))"

text \<open>
  The requests of one fetch, in order: the primary endpoint first, the secondary after
  it and only when the primary attempt failed (twice when it is retried).
\<close>

definition sequential_fallback ::
  "('r network \<Rightarrow> (error + 'r summary) \<times> endpoint list) \<Rightarrow> bool" where
  "sequential_fallback fetcher \<longleftrightarrow>
     (\<forall>net. snd (fetcher net) =
        (if \<not> fails (primary net) then [GithubApi]
         else if retried net then [GithubApi, RawUrl, RawUrl]
         else [GithubApi, RawUrl]))"

text \<open>
  A primary answer 403 and a secondary answer with a document the normalizer accepts,
  on a request that does not hit the cache: the response is the success built from the
  secondary document, the same response as if the primary had served that document.
\<close>

definition secondary_document_served ::
  "((string \<Rightarrow> timestamp) \<Rightarrow> int \<Rightarrow> int \<Rightarrow> 'r network \<Rightarrow> 'o cache \<Rightarrow> 'o response \<times> 'o cache)
     \<Rightarrow> ('r jsitems \<Rightarrow> error + 'o list) \<Rightarrow> bool" where
  "secondary_document_served GET process \<longleftrightarrow>
     (\<forall>getTime now later net cache r1 r2 d opps.
        freshEntry now cache = None \<and> primary net = Responds r1 \<and> status r1 = 403 \<and>
        secondary net = Responds r2 \<and> ok r2 \<and> body r2 = JsonDoc d \<and>
        process (items d) = Inr opps \<longrightarrow>
          http_status (fst (GET getTime now later net cache)) = 200 \<and>
          success (fst (GET getTime now later net cache)) \<and>
          data (fst (GET getTime now later net cache)) = Some opps \<and>
          count (fst (GET getTime now later net cache)) = Some (length opps) \<and>
          dataUpdated (fst (GET getTime now later net cache)) = updated d \<and>
          cached (fst (GET getTime now later net cache)) = Some False \<and>
          error (fst (GET getTime now later net cache)) = None \<and>
          GET getTime now later net cache =
            GET getTime now later (net\<lparr>primary := Responds r2\<rparr>) cache)"

text \<open>
  The freshness window as the handlers have it. The window is measured from the
  timestamp of the stored entry: after a request that answered 200 and left \<open>entry\<close> in
  the cache, a request at \<open>now2\<close> with \<open>now2 - c_timestamp entry < W\<close> returns the same
  data with \<open>cached = true\<close>, leaves the cache as it is and does not depend on the network.
  The entry a fetching request stores carries the source's \<^verbatim>\<open>updated\<close> time when that is
  truthy, and the request's own \<open>now\<close> otherwise. A request outside the window
  of the stored entry is not answered from the cache.
\<close>

definition freshness_window ::
  "((string \<Rightarrow> timestamp) \<Rightarrow> int \<Rightarrow> int \<Rightarrow> 'r network \<Rightarrow> 'o cache \<Rightarrow> 'o response \<times> 'o cache)
     \<Rightarrow> bool" where
  "freshness_window GET \<longleftrightarrow>
     (\<forall>getTime now1 later1 net1 cache0 now2 later2 net2 entry.
        http_status (fst (GET getTime now1 later1 net1 cache0)) = 200 \<and>
        snd (GET getTime now1 later1 net1 cache0) = Some entry \<and>
        fresh now2 (c_timestamp entry) \<longrightarrow>
          data (fst (GET getTime now2 later2 net2 (Some entry))) =
            data (fst (GET getTime now1 later1 net1 cache0)) \<and>
          cached (fst (GET getTime now2 later2 net2 (Some entry))) = Some True \<and>
          snd (GET getTime now2 later2 net2 (Some entry)) = Some entry \<and>
          (\<forall>getTime' later' net'.
             GET getTime' now2 later' net' (Some entry) =
             GET getTime now2 later2 net2 (Some entry))) \<and>
     (\<forall>getTime now later net cache src.
        freshEntry now cache = None \<and> fst (fetchSummaryData net) = Inr src \<and>
        http_status (fst (GET getTime now later net cache)) = 200 \<longrightarrow>
          (\<exists>opps. snd (GET getTime now later net cache) =
             Some \<lparr>c_data = opps,
                   c_timestamp = (if truthy (updated src)
                                  then Date_getTime getTime (updated src) else Millis now)\<rparr>)) \<and>
     (\<forall>getTime now later net entry.
        \<not> fresh now (c_timestamp entry) \<longrightarrow>
          cached (fst (GET getTime now later net (Some entry))) \<noteq> Some True)"

text \<open>
  The shapes of the responses. \<open>cachedCount\<close> tells whether the property speaks about
  the \<^verbatim>\<open>count\<close> key of a cached response; \<open>meta\<close> is the \<^verbatim>\<open>metadata\<close> key of a freshly
  fetched response. The \<^verbatim>\<open>timestamp\<close> of a cached response and of a 500 is a number of
  milliseconds; that of a freshly fetched response is \<^verbatim>\<open>new Date(updated).getTime()\<close> when
  the document's \<^verbatim>\<open>updated\<close> is truthy and the clock reading otherwise, hence a number
  unless \<^verbatim>\<open>updated\<close> is truthy and not a date. A 500 is the error response, which has no
  other key.
\<close>

definition response_shape ::
  "((string \<Rightarrow> timestamp) \<Rightarrow> int \<Rightarrow> int \<Rightarrow> 'r network \<Rightarrow> 'o cache \<Rightarrow> 'o response \<times> 'o cache)
     \<Rightarrow> bool \<Rightarrow> string \<Rightarrow> (string \<times> string) list option \<Rightarrow> bool" where
  "response_shape GET cachedCount message meta \<longleftrightarrow>
     (\<forall>getTime now later net cache resp.
        resp = fst (GET getTime now later net cache) \<longrightarrow>
        (http_status resp = 200 \<or> http_status resp = 500) \<and>
        (http_status resp = 200 \<longrightarrow>
           success resp \<and> error resp = None \<and>
           (cached resp = Some False \<or> cached resp = Some True) \<and>
           (cached resp = Some False \<longrightarrow>
              (\<exists>opps. data resp = Some opps \<and> count resp = Some (length opps)) \<and>
              metadata resp = meta \<and>
              (\<exists>src. fst (fetchSummaryData net) = Inr src \<and> dataUpdated resp = updated src \<and>
                 timestamp resp =
                   Some (if truthy (updated src)
                         then Date_getTime getTime (updated src) else Millis now) \<and>
                 ((truthy (updated src) \<longrightarrow> Date_getTime getTime (updated src) \<noteq> NaN) \<longrightarrow>
                    (\<exists>t. timestamp resp = Some (Millis t))))) \<and>
           (cached resp = Some True \<longrightarrow>
              dataUpdated resp = Undefined \<and> metadata resp = None \<and>
              (\<exists>entry t. freshEntry now cache = Some entry \<and> data resp = Some (c_data entry) \<and>
                 c_timestamp entry = Millis t \<and> timestamp resp = Some (Millis t) \<and>
                 (cachedCount \<longrightarrow> count resp = Some (length (c_data entry)))))) \<and>
        (http_status resp = 500 \<longrightarrow>
           resp = errorResponse message later \<and>
           \<not> success resp \<and> error resp = Some message \<and>
           timestamp resp = Some (Millis later) \<and> data resp = None \<and>
           dataUpdated resp = Undefined \<and> cached resp = None \<and> count resp = None \<and>
           metadata resp = None))"

text \<open>
  Failures at the endpoint boundary. A 500 is what the \<^verbatim>\<open>catch\<close> block of a handler
  returns: it carries the handler's message and leaves the cache variable as it was;
  the normalizer raising on a request that fetches is such a failure. The entry that
  is left is not served afterwards: a request reaches the fetch only when no entry is
  fresh, and an entry that is not fresh at \<open>now\<close> is not fresh at any later \<open>now'\<close>, so no
  request from then on is answered from the cache as the failure left it.
\<close>

definition failure_keeps_cache ::
  "((string \<Rightarrow> timestamp) \<Rightarrow> int \<Rightarrow> int \<Rightarrow> 'r network \<Rightarrow> 'o cache \<Rightarrow> 'o response \<times> 'o cache)
     \<Rightarrow> ('r jsitems \<Rightarrow> error + 'o list) \<Rightarrow> string \<Rightarrow> bool" where
  "failure_keeps_cache GET process message \<longleftrightarrow>
     (\<forall>getTime now later net cache.
        (http_status (fst (GET getTime now later net cache)) = 500 \<longrightarrow>
           fst (GET getTime now later net cache) = errorResponse message later \<and>
           snd (GET getTime now later net cache) = cache \<and>
           (\<forall>getTime' now' later' net'.
              now \<le> now' \<longrightarrow>
                cached (fst (GET getTime' now' later' net' cache)) \<noteq> Some True)) \<and>
        (\<forall>src e. freshEntry now cache = None \<and> fst (fetchSummaryData net) = Inr src \<and>
           process (items src) = Inl e \<longrightarrow>
             http_status (fst (GET getTime now later net cache)) = 500))"

text \<open>
  The client keeps the first fifty: a transform function returns \<open>min 50 N\<close> items, the
  item at position \<open>i\<close> made by its callback from the record at position \<open>i\<close>, and the
  records from the fifty-first on have no influence. A table shows the first twenty
  items it is given, in order, each with its rank.
\<close>

definition first_fifty :: "('a list \<Rightarrow> 'b list) \<Rightarrow> ('a \<Rightarrow> nat \<Rightarrow> 'b) \<Rightarrow> bool" where
  "first_fifty transform callback \<longleftrightarrow>
     (\<forall>rows. length (transform rows) = min 50 (length rows) \<and>
        (\<forall>i < min 50 (length rows). transform rows ! i = callback (rows ! i) i) \<and>
        transform rows = transform (take 50 rows))"

definition first_twenty :: "('b list \<Rightarrow> (nat \<times> 'b) list) \<Rightarrow> bool" where
  "first_twenty table \<longleftrightarrow>
     (\<forall>rows. length (table rows) = min 20 (length rows) \<and>
        (\<forall>i < min 20 (length rows). table rows ! i = (i + 1, rows ! i)))"

text \<open>
  The six handlers are one handler up to the normalizer, the \<^verbatim>\<open>count\<close> key of the cached
  response, the error message and the \<^verbatim>\<open>metadata\<close> key. This common form is a device of
  the proofs: each property is shown for it once and carried over to the six.
\<close>

definition handler ::
  "('r jsitems \<Rightarrow> error + 'o list) \<Rightarrow> bool \<Rightarrow> string \<Rightarrow> (string \<times> string) list option
     \<Rightarrow> (string \<Rightarrow> timestamp) \<Rightarrow> int \<Rightarrow> int \<Rightarrow> 'r network \<Rightarrow> 'o cache
     \<Rightarrow> 'o response \<times> 'o cache" where
  "handler process cachedCount message meta getTime now later net cache =
     (case freshEntry now cache of
        Some entry \<Rightarrow>
          (\<lparr>http_status = 200, success = True, data = Some (c_data entry),
            timestamp = Some (c_timestamp entry), dataUpdated = Undefined,
            cached = Some True,
            count = (if cachedCount then Some (length (c_data entry)) else None),
            error = None, metadata = None\<rparr>,
           cache)
      | None \<Rightarrow>
          (case fst (fetchSummaryData net) of
             Inl e \<Rightarrow> (errorResponse message later, cache)
           | Inr result \<Rightarrow>
               (case process (items result) of
                  Inl e \<Rightarrow> (errorResponse message later, cache)
                | Inr opps \<Rightarrow>
                    (let dataTimestamp =
                           (if truthy (updated result)
                            then Date_getTime getTime (updated result) else Millis now)
                     in (\<lparr>http_status = 200, success = True, data = Some opps,
                           timestamp = Some dataTimestamp,
                           dataUpdated = updated result, cached = Some False,
                           count = Some (length opps), error = None,
                           metadata = meta\<rparr>,
                         Some \<lparr>c_data = opps, c_timestamp = dataTimestamp\<rparr>)))))"

text \<open>
  The unified timestamp in the specification's words: the absent values are filtered
  out and the maximum of the remaining times is taken; with nothing left it is
  \<^verbatim>\<open>null\<close>. \<open>timestamp_or_absent\<close> holds of a \<^verbatim>\<open>dataUpdated\<close> value that is absent or a
  timestamp, that is a non-empty string the date parser reads.
\<close>

definition unifiedDataAsOf :: "(string \<Rightarrow> timestamp) \<Rightarrow> updated list \<Rightarrow> timestamp option" where
  "unifiedDataAsOf getTime us =
     (let times = [t. Str s \<leftarrow> us, Millis t \<leftarrow> [getTime s]]
      in if times = [] then None else Some (Millis (Max (set times))))"

definition timestamp_or_absent :: "(string \<Rightarrow> timestamp) \<Rightarrow> updated \<Rightarrow> bool" where
  "timestamp_or_absent getTime u =
     (case u of
        Undefined \<Rightarrow> True
      | Null \<Rightarrow> True
      | Str s \<Rightarrow> s \<noteq> [] \<and> getTime s \<noteq> NaN
      | _ \<Rightarrow> False)"

subsection \<open>Sample inputs\<close>

text \<open>
  Inputs of the concrete instances below. \<open>getTime0\<close> and \<open>getTime1\<close> read the dates they list
  and take every other string for an invalid date.
\<close>

definition getTime0 :: "string \<Rightarrow> timestamp" where
  "getTime0 s = (if s = ''2024-01-01T00:00:00.000Z'' then Millis 1704067200000 else NaN)"

definition respond :: "nat \<Rightarrow> 'r body \<Rightarrow> 'r outcome" where
  "respond code b = Responds \<lparr>status = code, body = b\<rparr>"

definition runeAxeDocument :: "RawAlchemyData summary" where
  "runeAxeDocument = \<lparr>items = Arr [Some runeAxe], updated = Str ''2024-01-01T00:00:00.000Z''\<rparr>"

definition undatedDocument :: "RawAlchemyData summary" where
  "undatedDocument = \<lparr>items = Arr [Some runeAxe], updated = Null\<rparr>"

definition noItemsDocument :: "RawAlchemyData summary" where
  "noItemsDocument = \<lparr>items = NotArray, updated = Str ''2024-01-01T00:00:00.000Z''\<rparr>"

text \<open>
  Three networks: nothing can be reached; the primary endpoint serves a document; the
  primary endpoint answers 403 and the raw URL serves a body.
\<close>

definition unreachable :: "RawAlchemyData network" where
  "unreachable = \<lparr>primary = Throws, secondary = Throws, secondaryRetry = Throws\<rparr>"

definition serving :: "RawAlchemyData summary \<Rightarrow> RawAlchemyData network" where
  "serving d = \<lparr>primary = respond 200 (JsonDoc d), secondary = Throws, secondaryRetry = Throws\<rparr>"

definition rateLimited :: "RawAlchemyData body \<Rightarrow> RawAlchemyData network" where
  "rateLimited b =
     \<lparr>primary = respond 403 BadJson, secondary = respond 200 b, secondaryRetry = respond 200 b\<rparr>"

definition undatableDocument :: "RawAlchemyData summary" where
  "undatableDocument = \<lparr>items = Arr [Some runeAxe], updated = Str ''soon''\<rparr>"

definition blankRow :: PageRawAlchemyData where
  "blankRow = \<lparr>pa_id = None, pa_name = None, pa_currentLow = None, pa_priceFloor = None,
      pa_alchPrice = None, pa_potentialProfit = None, pa_roi = None, pa_buyLimit = None,
      pa_members = None\<rparr>"

definition numberedRows :: "nat \<Rightarrow> PageRawAlchemyData list" where
  "numberedRows n = map (\<lambda>k. blankRow\<lparr>pa_id := Some (of_nat k)\<rparr>) [1..<Suc n]"

definition staleEntry :: "AlchemyOpportunity cacheEntry" where
  "staleEntry = \<lparr>c_data = [alchemyItem runeAxe 0], c_timestamp = Millis 0\<rparr>"

definition emptyDocument :: "RawAlchemyData summary" where
  "emptyDocument = \<lparr>items = Arr [], updated = Null\<rparr>"

definition getTime1 :: "string \<Rightarrow> timestamp" where
  "getTime1 s =
     (if s = ''2024-01-01T00:00:00.000Z'' then Millis 1704067200000
      else if s = ''2024-01-01T00:05:00.000Z'' then Millis 1704067500000
      else NaN)"

section \<open>Auxiliary lemmas\<close>

lemma map_index_Some:
  "map_index f i (map Some rs) = Inr (map (\<lambda>k. f (rs ! k) (i + k)) [0..<length rs])"
proof (induction rs arbitrary: i)
  case Nil
  then show ?case by simp
next
  case (Cons r rs)
  have "[0..<length (r # rs)] = 0 # map Suc [0..<length rs]"
    by (simp add: upt_conv_Cons map_Suc_upt del: upt_Suc)
  then have "map (\<lambda>k. f ((r # rs) ! k) (i + k)) [0..<length (r # rs)] =
        f r i # map (\<lambda>k. f (rs ! k) (Suc i + k)) [0..<length rs]"
    by (simp add: comp_def)
  with Cons show ?case by simp
qed

lemma js_map_records:
  "js_map f (Arr (map Some rs)) = Inr (map (\<lambda>k. f (rs ! k) k) [0..<length rs])"
  by (simp add: js_map_def map_index_Some)

lemma js_map_order_preserved: "order_preserved (js_map f) f"
  unfolding order_preserved_def by (simp add: js_map_records)

lemma num_or_zero: "num_or a 0 = nullish a 0"
  by (simp add: num_or_def nullish_def split: option.splits)

lemma str_or_nullish: "str_or a d = (if a = Some [] then d else nullish a d)"
  by (simp add: str_or_def nullish_def split: option.splits)

lemma fetch_functions:
  "fetchAlchemyData = fetchSummaryData" "fetchDipDetectionData = fetchSummaryData"
  "fetchVolatilityData = fetchSummaryData" "fetchVolumeProfileData = fetchSummaryData"
  "fetchConfluenceData = fetchSummaryData" "fetchRecipeArbitrageData = fetchSummaryData"
  by (simp_all add: fun_eq_iff fetchAlchemyData_def fetchDipDetectionData_def
      fetchVolatilityData_def fetchVolumeProfileData_def fetchConfluenceData_def
      fetchRecipeArbitrageData_def)

lemma GET_alchemy_handler:
  "GET_alchemy = handler processAlchemyData False ''Failed to analyze alchemy opportunities''
     (Some alchemyMetadata)"
  unfolding fun_eq_iff GET_alchemy_def handler_def fetchAlchemyData_def by (simp split: option.splits)

lemma GET_dip_handler:
  "GET_dip = handler processDipData False ''Failed to detect price dips'' None"
  unfolding fun_eq_iff GET_dip_def handler_def fetchDipDetectionData_def by (simp split: option.splits)

lemma GET_volatility_handler:
  "GET_volatility =
     handler processVolatilityData True ''Failed to fetch volatility breakout data'' None"
  unfolding fun_eq_iff GET_volatility_def handler_def fetchVolatilityData_def by (simp split: option.splits)

lemma GET_volumeProfile_handler:
  "GET_volumeProfile =
     handler processVolumeProfileData True ''Failed to fetch volume profile data'' None"
  unfolding fun_eq_iff GET_volumeProfile_def handler_def fetchVolumeProfileData_def by (simp split: option.splits)

lemma GET_confluence_handler:
  "GET_confluence =
     handler processConfluenceData True ''Failed to fetch confluence analysis data'' None"
  unfolding fun_eq_iff GET_confluence_def handler_def fetchConfluenceData_def by (simp split: option.splits)

lemma GET_recipeArbitrage_handler:
  "GET_recipeArbitrage =
     handler processRecipeArbitrageData True ''Failed to fetch recipe arbitrage data'' None"
  unfolding fun_eq_iff GET_recipeArbitrage_def handler_def fetchRecipeArbitrageData_def by (simp split: option.splits)

lemmas GET_handler = GET_alchemy_handler GET_dip_handler GET_volatility_handler
  GET_volumeProfile_handler GET_confluence_handler GET_recipeArbitrage_handler

lemma lastResponse:
  "fst (githubResponse net) =
     (if \<not> fails (primary net) then fetch (primary net)
      else if retried net then fetch (secondaryRetry net)
      else fetch (secondary net))"
  by (simp add: githubResponse_def fetch_def fails_def retried_def split: outcome.splits)

lemma fetchSummaryData_result:
  "fst (fetchSummaryData net) =
     (case readSummary (fst (githubResponse net)) of
        Inr (Some result) \<Rightarrow> Inr result
      | _ \<Rightarrow> Inr emptyResult)"
  by (simp add: fetchSummaryData_def emptyResult_def split: prod.splits sum.splits option.splits)

lemma readSummary_failure: "fails out \<Longrightarrow> readSummary (fetch out) \<noteq> Inr (Some d)"
  by (simp add: fails_def fetch_def readSummary_def split: outcome.splits)

lemma readSummary_answer:
  "ok r \<Longrightarrow> readSummary (fetch (Responds r)) =
     (case body r of JsonDoc d \<Rightarrow> Inr (Some d) | BadJson \<Rightarrow> Inl SyntaxError | JsonNull \<Rightarrow> Inl TypeError)"
  by (simp add: fetch_def readSummary_def json_def split: body.splits)

lemma answers_last:
  "answers net r \<Longrightarrow> ok r \<and> fst (githubResponse net) = fetch (Responds r)"
  by (auto simp: answers_def lastResponse fails_def retried_def fetch_def)

lemma exhausted_last:
  "exhausted net \<Longrightarrow> \<exists>out. fails out \<and> fst (githubResponse net) = fetch out"
  by (auto simp: exhausted_def lastResponse)

lemma fetchSummaryData_contract: "fetcher_contract fetchSummaryData"
  unfolding fetcher_contract_def
proof (intro allI conjI impI)
  fix net :: "'a network"
  show "\<exists>result. fst (fetchSummaryData net) = Inr result"
    by (simp add: fetchSummaryData_result split: sum.splits option.splits)
  show "fst (fetchSummaryData net) = Inr emptyResult" if "exhausted net"
  proof -
    from that obtain out where "fails out" "fst (githubResponse net) = fetch out"
      using exhausted_last by blast
    then show ?thesis
      using readSummary_failure [of out]
      by (simp add: fetchSummaryData_result split: sum.splits option.splits)
  qed
  show "fst (fetchSummaryData net) = Inr emptyResult"
    if "answers net r \<and> (body r = BadJson \<or> body r = JsonNull)" for r
    using that answers_last [of net r]
    by (auto simp: fetchSummaryData_result readSummary_answer)
  show "fst (fetchSummaryData net) = Inr d" if "answers net r \<and> body r = JsonDoc d" for r d
    using that answers_last [of net r]
    by (auto simp: fetchSummaryData_result readSummary_answer)
qed

lemma fetchSummaryData_sequential: "sequential_fallback fetchSummaryData"
  unfolding sequential_fallback_def
  by (auto simp: fetchSummaryData_def githubResponse_def fetch_def fails_def retried_def
      split: prod.splits sum.splits outcome.splits)

lemma handler_freshness: "freshness_window (handler process cachedCount message meta)"
  unfolding freshness_window_def
  by (auto simp: handler_def freshEntry_def errorResponse_def Let_def
      split: option.splits sum.splits if_splits)

lemma freshEntry_Millis:
  "freshEntry now cache = Some entry \<Longrightarrow> \<exists>t. c_timestamp entry = Millis t"
  by (auto simp: freshEntry_def fresh_def split: option.splits timestamp.splits if_splits)

lemma handler_shape:
  "response_shape (handler process cachedCount message meta) cachedCount message meta"
  unfolding response_shape_def
  apply (intro allI impI)
  subgoal for getTime now later net cache resp
    apply (cases "freshEntry now cache")
    subgoal
      apply (cases "fst (fetchSummaryData net)")
      subgoal by (simp add: handler_def errorResponse_def)
      subgoal for src
        apply (cases "process (items src)")
        subgoal by (simp add: handler_def errorResponse_def)
        subgoal
          by (cases "truthy (updated src)"; cases "Date_getTime getTime (updated src)")
             (simp_all add: handler_def Let_def)
        done
      done
    subgoal for entry
      by (frule freshEntry_Millis) (auto simp: handler_def)
    done
  done

lemma stale_stays_stale: "freshEntry now cache = None \<Longrightarrow> now \<le> now' \<Longrightarrow> freshEntry now' cache = None"
  by (auto simp: freshEntry_def fresh_def split: option.splits timestamp.splits if_splits)

lemma handler_not_cached:
  "freshEntry now cache = None \<Longrightarrow>
   cached (fst (handler process cachedCount message meta getTime now later net cache)) \<noteq> Some True"
  by (simp add: handler_def errorResponse_def Let_def split: sum.splits)

lemma handler_500:
  "http_status (fst (handler process cachedCount message meta getTime now later net cache)) = 500 \<Longrightarrow>
   freshEntry now cache = None \<and>
   handler process cachedCount message meta getTime now later net cache =
     (errorResponse message later, cache)"
  by (auto simp: handler_def errorResponse_def Let_def split: option.splits sum.splits)

lemma handler_500_response:
  "http_status (fst (handler process cachedCount message meta getTime now later net cache)) = 500 \<Longrightarrow>
   fst (handler process cachedCount message meta getTime now later net cache) =
     errorResponse message later"
  by (drule handler_500) simp

lemma handler_500_cache:
  "http_status (fst (handler process cachedCount message meta getTime now later net cache)) = 500 \<Longrightarrow>
   snd (handler process cachedCount message meta getTime now later net cache) = cache"
  by (drule handler_500) simp

lemma handler_500_later:
  "http_status (fst (handler process cachedCount message meta getTime now later net cache)) = 500 \<Longrightarrow>
   now \<le> now' \<Longrightarrow>
   cached (fst (handler process cachedCount message meta getTime' now' later' net' cache)) \<noteq>
     Some True"
  by (rule handler_not_cached, rule stale_stays_stale [of now], rule conjunct1, rule handler_500)

lemma handler_raise:
  "freshEntry now cache = None \<and> fst (fetchSummaryData net) = Inr src \<and>
   process (items src) = Inl e \<Longrightarrow>
   http_status (fst (handler process cachedCount message meta getTime now later net cache)) = 500"
  by (simp add: handler_def errorResponse_def)

lemma handler_failure:
  "failure_keeps_cache (handler process cachedCount message meta) process message"
  unfolding failure_keeps_cache_def
  apply (intro allI conjI impI)
     apply (erule handler_500_response)
    apply (erule handler_500_cache)
   apply (erule handler_500_later, assumption)
  apply (erule handler_raise)
  done

lemma fetch_via_secondary:
  "primary net = Responds r1 \<Longrightarrow> status r1 = 403 \<Longrightarrow> secondary net = Responds r2 \<Longrightarrow> ok r2 \<Longrightarrow>
   body r2 = JsonDoc d \<Longrightarrow>
   fst (fetchSummaryData net) = Inr d \<and>
   fst (fetchSummaryData (net\<lparr>primary := Responds r2\<rparr>)) = Inr d"
  by (simp add: fetchSummaryData_def githubResponse_def fetch_def readSummary_def json_def ok_def)

lemma handler_secondary:
  "secondary_document_served (handler process cachedCount message meta) process"
  unfolding secondary_document_served_def
  apply (intro allI impI)
  apply (elim conjE)
  subgoal premises p for getTime now later net cache r1 r2 d opps
    using fetch_via_secondary [OF p(2) p(3) p(4) p(5) p(6)] p(1) p(7)
    by (simp add: handler_def Let_def)
  done

lemma fold_max2_Millis:
  "fold (\<lambda>x acc. max2 acc x) (map Millis as) (Millis a) = Millis (fold max as a)"
  by (induction as arbitrary: a) (simp_all add: max.commute)

lemma Math_max_Millis: "Math_max (Millis a) (map Millis as) = Millis (Max (set (a # as)))"
  unfolding Math_max_def fold_max2_Millis Max.set_eq_fold ..

lemma getTime_of_timestamps:
  "\<forall>u \<in> set us. timestamp_or_absent getTime u \<Longrightarrow>
   map (Date_getTime getTime) (filter truthy us) =
   map Millis [t. Str s \<leftarrow> us, Millis t \<leftarrow> [getTime s]]"
proof (induction us)
  case Nil
  then show ?case by simp
next
  case (Cons u us)
  then show ?case
    by (cases u; cases "getTime (case u of Str s \<Rightarrow> s | _ \<Rightarrow> [])")
       (simp_all add: truthy_def Date_getTime_def timestamp_or_absent_def)
qed

lemma length_mapi: "length (mapi f xs) = length xs"
  by (simp add: mapi_def)

lemma nth_mapi: "i < length xs \<Longrightarrow> mapi f xs ! i = f (xs ! i) i"
  by (simp add: mapi_def nth_enumerate_eq)

lemma slice_0: "slice 0 n xs = take n xs"
  by (simp add: slice_def)

lemma first_fifty_map: "first_fifty (\<lambda>rows. map f (slice 0 50 rows)) (\<lambda>item index. f item)"
  by (simp add: first_fifty_def slice_0 min.commute)

lemma first_fifty_mapi: "first_fifty (\<lambda>rows. mapi f (slice 0 50 rows)) f"
  by (simp add: first_fifty_def slice_0 length_mapi nth_mapi min.commute)

lemma first_twenty_rows:
  "first_twenty (\<lambda>rows. mapi (\<lambda>item index. (index + 1, item)) (slice 0 20 rows))"
  by (simp add: first_twenty_def slice_0 length_mapi nth_mapi min.commute)

text \<open>
  The window the handlers have (see \<open>freshness_window\<close>), for the six routes, and one
  instance of it: a document without \<^verbatim>\<open>updated\<close> fetched at 1000 is served from the cache
  at 5999.
\<close>

lemma handlers_window:
  "freshness_window GET_alchemy \<and>
   freshness_window GET_dip \<and>
   freshness_window GET_volatility \<and>
   freshness_window GET_volumeProfile \<and>
   freshness_window GET_confluence \<and>
   freshness_window GET_recipeArbitrage"
  by (simp add: GET_handler handler_freshness)

lemma handlers_window_instance:
  "cached (fst (GET_alchemy getTime0 5999 5999 unreachable
     (snd (GET_alchemy getTime0 1000 1000 (serving undatedDocument) None)))) = Some True \<and>
   data (fst (GET_alchemy getTime0 5999 5999 unreachable
     (snd (GET_alchemy getTime0 1000 1000 (serving undatedDocument) None)))) =
   data (fst (GET_alchemy getTime0 1000 1000 (serving undatedDocument) None))"
proof -
  let ?n = "serving undatedDocument"
  let ?e = "\<lparr>c_data = [alchemyItem runeAxe 0], c_timestamp = Millis 1000\<rparr>"
  have w: "freshness_window GET_alchemy"
    using handlers_window by simp
  have first: "GET_alchemy getTime0 1000 1000 ?n None =
      (\<lparr>http_status = 200, success = True, data = Some [alchemyItem runeAxe 0],
        timestamp = Some (Millis 1000), dataUpdated = Null, cached = Some False,
        count = Some 1, error = None, metadata = Some alchemyMetadata\<rparr>, Some ?e)"
    by (simp add: GET_alchemy_def freshEntry_def fetchAlchemyData_def fetchSummaryData_def
        githubResponse_def fetch_def respond_def serving_def
        unreachable_def rateLimited_def ok_def readSummary_def json_def
        undatedDocument_def processAlchemyData_def js_map_def truthy_def Let_def)
  have h: "http_status (fst (GET_alchemy getTime0 1000 1000 ?n None)) = 200 \<and>
      snd (GET_alchemy getTime0 1000 1000 ?n None) = Some ?e \<and>
      fresh 5999 (c_timestamp ?e)"
    by (simp add: first fresh_def CACHE_DURATION_def)
  from w [unfolded freshness_window_def, THEN conjunct1, rule_format, OF h,
      where ?later2.0 = 5999 and ?net2.0 = unreachable]
  show ?thesis by (simp add: first)
qed

section \<open>The claims\<close>

subsection \<open>C1: freshness window\<close>


subsection \<open>C2: the fetch functions do not raise\<close>

text \<open>
  C2, as stated, fails in its last part. The primary endpoint answers 200 with a JSON
  document that has no \<^verbatim>\<open>items\<close>: the fetch function returns that document's properties
  as they are, not the empty result, and the route answers 500.
\<close>

theorem missing_items_is_an_error_response:
  "fst (fetchAlchemyData (serving noItemsDocument)) =
     Inr noItemsDocument \<and>
   items noItemsDocument \<noteq> Arr [] \<and>
   http_status (fst (GET_alchemy getTime0 1704070800000 1704070800001 (serving noItemsDocument) None)) = 500"
  by code_simp

text \<open>
  C2 (amended): for every category, under every network behaviour the fetch function
  returns a value (it does not raise); the value is \<^verbatim>\<open>{ items: [], updated: null }\<close> when
  every attempt fails (a transport exception or a non-success status each) and when the
  body of the answering response is not JSON or is the JSON \<^verbatim>\<open>null\<close>; when the body is a
  JSON document, the value is its \<^verbatim>\<open>items\<close> and \<^verbatim>\<open>updated\<close> as they are.
\<close>

theorem fetchers_never_raise:
  "fetcher_contract fetchAlchemyData \<and>
   fetcher_contract fetchDipDetectionData \<and>
   fetcher_contract fetchVolatilityData \<and>
   fetcher_contract fetchVolumeProfileData \<and>
   fetcher_contract fetchConfluenceData \<and>
   fetcher_contract fetchRecipeArbitrageData"
  by (simp add: fetch_functions fetchSummaryData_contract)

text \<open>
  C2 (amended), at three concrete networks: all three attempts fail (a 403, an
  exception, a 404); the secondary answers with the JSON \<^verbatim>\<open>null\<close>; the secondary
  answers with a document.
\<close>

theorem fetchers_never_raise_witness:
  "fst (fetchAlchemyData \<lparr>primary = respond 403 BadJson, secondary = Throws,
      secondaryRetry = respond 404 BadJson\<rparr>) = Inr emptyResult \<and>
   fst (fetchAlchemyData (rateLimited JsonNull)) = Inr emptyResult \<and>
   fst (fetchAlchemyData (rateLimited (JsonDoc runeAxeDocument))) = Inr runeAxeDocument"
proof -
  have c: "fetcher_contract fetchAlchemyData"
    using fetchers_never_raise by simp
  let ?n1 = "\<lparr>primary = respond 403 BadJson, secondary = Throws,
      secondaryRetry = respond 404 BadJson\<rparr> :: RawAlchemyData network"
  let ?n2 = "rateLimited JsonNull"
  let ?n3 = "rateLimited (JsonDoc runeAxeDocument)"
  have h1: "exhausted ?n1"
    by (simp add: exhausted_def retried_def fails_def respond_def serving_def
        unreachable_def rateLimited_def ok_def)
  have h2: "answers ?n2 \<lparr>status = 200, body = JsonNull\<rparr> \<and>
      (body \<lparr>status = 200, body = JsonNull :: RawAlchemyData body\<rparr> = BadJson \<or>
       body \<lparr>status = 200, body = JsonNull :: RawAlchemyData body\<rparr> = JsonNull)"
    by (simp add: answers_def fails_def respond_def serving_def
        unreachable_def rateLimited_def ok_def)
  have h3: "answers ?n3 \<lparr>status = 200, body = JsonDoc runeAxeDocument\<rparr> \<and>
      body \<lparr>status = 200, body = JsonDoc runeAxeDocument\<rparr> = JsonDoc runeAxeDocument"
    by (simp add: answers_def fails_def respond_def serving_def
        unreachable_def rateLimited_def ok_def)
  from c h1 have "fst (fetchAlchemyData ?n1) = Inr emptyResult"
    unfolding fetcher_contract_def by blast
  moreover from c h2 have "fst (fetchAlchemyData ?n2) = Inr emptyResult"
    unfolding fetcher_contract_def by blast
  moreover from c h3 have "fst (fetchAlchemyData ?n3) = Inr runeAxeDocument"
    unfolding fetcher_contract_def by blast
  ultimately show ?thesis by simp
qed

subsection \<open>C3: order and identifiers\<close>

text \<open>
  C3, as stated, fails for the dip normalizer: two records without \<^verbatim>\<open>id\<close> both get the
  identifier 0, so the identifier of the second is not its position (neither 1 nor 2).
\<close>

theorem dip_ids_are_not_positions:
  "map_sum id (map dip_id) (processDipData (Arr [Some blankDip, Some blankDip])) = Inr [0, 0]"
  by code_simp

text \<open>
  C3 (amended): every category's normalizer maps an array of \<open>N\<close> records to \<open>N\<close>
  opportunities in the same order. The identifier is \<^verbatim>\<open>"alchemy-" + index\<close> (from 0) for
  alchemy, \<open>index + 1\<close> for volatility, volume profile, confluence and recipe arbitrage, and
  for dips the record's own \<^verbatim>\<open>id\<close>, 0 when the record has none.
\<close>

theorem normalizers_preserve_order:
  "order_preserved processAlchemyData alchemyItem \<and>
   order_preserved processDipData dipItem \<and>
   order_preserved processVolatilityData volatilityItem \<and>
   order_preserved processVolumeProfileData volumeProfileItem \<and>
   order_preserved processConfluenceData confluenceItem \<and>
   order_preserved processRecipeArbitrageData recipeItem \<and>
   alch_id (alchemyItem a i) = ''alchemy-'' @ string_of_nat i \<and>
   dip_id (dipItem d i) = (case rd_id d of None \<Rightarrow> 0 | Some v \<Rightarrow> v) \<and>
   vol_id (volatilityItem v i) = of_nat i + 1 \<and>
   vp_id (volumeProfileItem p i) = of_nat i + 1 \<and>
   conf_id (confluenceItem c i) = of_nat i + 1 \<and>
   rec_id (recipeItem r i) = of_nat i + 1"
proof -
  have "processAlchemyData = js_map alchemyItem" "processDipData = js_map dipItem"
    "processVolatilityData = js_map volatilityItem"
    "processVolumeProfileData = js_map volumeProfileItem"
    "processConfluenceData = js_map confluenceItem"
    "processRecipeArbitrageData = js_map recipeItem"
    by (simp_all add: fun_eq_iff processAlchemyData_def processDipData_def
        processVolatilityData_def processVolumeProfileData_def processConfluenceData_def
        processRecipeArbitrageData_def)
  note eqs = this
  have "order_preserved processAlchemyData alchemyItem"
    "order_preserved processDipData dipItem"
    "order_preserved processVolatilityData volatilityItem"
    "order_preserved processVolumeProfileData volumeProfileItem"
    "order_preserved processConfluenceData confluenceItem"
    "order_preserved processRecipeArbitrageData recipeItem"
    unfolding eqs by (rule js_map_order_preserved)+
  moreover have "alch_id (alchemyItem a i) = ''alchemy-'' @ string_of_nat i"
    by (simp add: alchemyItem_def)
  moreover have "dip_id (dipItem d i) = (case rd_id d of None \<Rightarrow> 0 | Some v \<Rightarrow> v)"
    by (simp add: dipItem_def num_or_def split: option.splits)
  moreover have "vol_id (volatilityItem v i) = of_nat i + 1"
    "vp_id (volumeProfileItem p i) = of_nat i + 1"
    "conf_id (confluenceItem c i) = of_nat i + 1"
    "rec_id (recipeItem r i) = of_nat i + 1"
    by (simp_all add: volatilityItem_def volumeProfileItem_def confluenceItem_def recipeItem_def)
  ultimately show ?thesis by simp
qed

text \<open>
  C3 (amended), at a concrete input: two dip records, the second with \<^verbatim>\<open>id\<close> 4151.
\<close>

theorem normalizers_preserve_order_witness:
  "\<exists>out. processDipData (Arr (map Some [blankDip, blankDip\<lparr>rd_id := Some 4151\<rparr>])) = Inr out \<and>
     length out = 2 \<and> out ! 1 = dipItem (blankDip\<lparr>rd_id := Some 4151\<rparr>) 1 \<and>
     dip_id (dipItem (blankDip\<lparr>rd_id := Some 4151\<rparr>) 1) = 4151"
proof -
  have ord: "order_preserved processDipData dipItem"
    and ident: "dip_id (dipItem (blankDip\<lparr>rd_id := Some 4151\<rparr>) 1) =
      (case rd_id (blankDip\<lparr>rd_id := Some 4151\<rparr>) of None \<Rightarrow> 0 | Some v \<Rightarrow> v)"
    using normalizers_preserve_order [where d = "blankDip\<lparr>rd_id := Some 4151\<rparr>" and i = 1] by simp_all
  from ord obtain out where
    "processDipData (Arr (map Some [blankDip, blankDip\<lparr>rd_id := Some 4151\<rparr>])) = Inr out"
    "length out = length [blankDip, blankDip\<lparr>rd_id := Some 4151\<rparr>]"
    "\<forall>i < length [blankDip, blankDip\<lparr>rd_id := Some 4151\<rparr>].
       out ! i = dipItem ([blankDip, blankDip\<lparr>rd_id := Some 4151\<rparr>] ! i) i"
    unfolding order_preserved_def by blast
  then show ?thesis using ident by (intro exI [of _ out]) simp
qed

subsection \<open>C4: response shapes\<close>

text \<open>
  C4, as stated, fails twice. On the cached branch: the alchemy route caches the
  document \<^verbatim>\<open>{ items: [], updated: null }\<close> at 1000 and is asked again at 2000; the
  response is a 200 with \<open>cached = true\<close> that has neither \<^verbatim>\<open>count\<close> nor \<^verbatim>\<open>dataUpdated\<close>.
  On the fetching branch: for a document whose \<^verbatim>\<open>updated\<close> is the string \<^verbatim>\<open>"soon"\<close>, which is
  not a date, the \<^verbatim>\<open>timestamp\<close> of the 200 is \<open>NaN\<close> (\<^verbatim>\<open>null\<close> once serialized), not a number.
\<close>

theorem responses_short_of_full_shape:
  "http_status (fst (GET_alchemy getTime0 2000 2000 unreachable
     (snd (GET_alchemy getTime0 1000 1000 (serving emptyDocument) None)))) = 200 \<and>
   cached (fst (GET_alchemy getTime0 2000 2000 unreachable
     (snd (GET_alchemy getTime0 1000 1000 (serving emptyDocument) None)))) = Some True \<and>
   count (fst (GET_alchemy getTime0 2000 2000 unreachable
     (snd (GET_alchemy getTime0 1000 1000 (serving emptyDocument) None)))) = None \<and>
   dataUpdated (fst (GET_alchemy getTime0 2000 2000 unreachable
     (snd (GET_alchemy getTime0 1000 1000 (serving emptyDocument) None)))) = Undefined \<and>
   http_status (fst (GET_alchemy getTime0 1000 1000 (serving undatableDocument) None)) = 200 \<and>
   timestamp (fst (GET_alchemy getTime0 1000 1000 (serving undatableDocument) None)) = Some NaN"
  by code_simp

text \<open>
  C4 (amended): for every category a response is a 200 or a 500. A freshly fetched 200
  carries \<open>success = true\<close>, \<open>data\<close>, \<open>cached = false\<close>, \<open>count\<close> equal to the length of \<open>data\<close>,
  \<open>dataUpdated\<close> as the fetched document has \<^verbatim>\<open>updated\<close>, and a \<open>timestamp\<close> that is
  \<^verbatim>\<open>new Date(updated).getTime()\<close> when \<^verbatim>\<open>updated\<close> is truthy and the clock reading
  otherwise: a number unless \<^verbatim>\<open>updated\<close> is truthy and not a date. A cached 200 carries
  \<open>success = true\<close>, the entry's \<open>data\<close>, the entry's \<open>timestamp\<close>, which is a number,
  \<open>cached = true\<close> and no \<open>dataUpdated\<close>; for volatility, volume profile, confluence and
  recipe arbitrage it also carries \<open>count\<close>, the length of \<open>data\<close>. A 500 carries exactly
  \<open>success = false\<close>, the category's \<open>error\<close> message and a \<open>timestamp\<close> that is a number.
  Only the freshly fetched alchemy response has a \<open>metadata\<close> key.
\<close>

theorem response_shapes:
  "response_shape GET_alchemy False ''Failed to analyze alchemy opportunities''
     (Some alchemyMetadata) \<and>
   response_shape GET_dip False ''Failed to detect price dips'' None \<and>
   response_shape GET_volatility True ''Failed to fetch volatility breakout data'' None \<and>
   response_shape GET_volumeProfile True ''Failed to fetch volume profile data'' None \<and>
   response_shape GET_confluence True ''Failed to fetch confluence analysis data'' None \<and>
   response_shape GET_recipeArbitrage True ''Failed to fetch recipe arbitrage data'' None"
  by (simp add: GET_handler handler_shape)

text \<open>
  C4 (amended), at concrete inputs of the alchemy route: a fetched response, a cached
  one and a failed one.
\<close>

theorem response_shapes_witness:
  "count (fst (GET_alchemy getTime0 1704070800000 1704070800001 (serving runeAxeDocument) None)) =
     Some 1 \<and>
   dataUpdated (fst (GET_alchemy getTime0 1704070800000 1704070800001 (serving runeAxeDocument)
     None)) = Str ''2024-01-01T00:00:00.000Z'' \<and>
   timestamp (fst (GET_alchemy getTime0 1704070800000 1704070800001 (serving runeAxeDocument)
     None)) = Some (Millis 1704067200000) \<and>
   dataUpdated (fst (GET_alchemy getTime0 4000 4001 unreachable (Some staleEntry))) = Undefined \<and>
   timestamp (fst (GET_alchemy getTime0 4000 4001 unreachable (Some staleEntry))) =
     Some (Millis 0) \<and>
   fst (GET_alchemy getTime0 1704070800000 1704070800001 (serving noItemsDocument) None) =
     errorResponse ''Failed to analyze alchemy opportunities'' 1704070800001"
proof -
  let ?n = "serving runeAxeDocument"
  let ?m = "serving noItemsDocument"
  let ?d = "unreachable"
  let ?fresh = "fst (GET_alchemy getTime0 1704070800000 1704070800001 ?n None)"
  let ?hit = "fst (GET_alchemy getTime0 4000 4001 ?d (Some staleEntry))"
  let ?failed = "fst (GET_alchemy getTime0 1704070800000 1704070800001 ?m None)"
  have shape: "response_shape GET_alchemy False ''Failed to analyze alchemy opportunities''
      (Some alchemyMetadata)"
    using response_shapes by simp
  note s = shape [unfolded response_shape_def, rule_format, OF refl]
  have src: "fst (fetchSummaryData ?n) = Inr runeAxeDocument"
    by (simp add: fetchSummaryData_def githubResponse_def fetch_def respond_def serving_def
        ok_def readSummary_def json_def)
  have f: "http_status ?fresh = 200 \<and> cached ?fresh = Some False \<and>
      data ?fresh = Some [alchemyItem runeAxe 0]"
    by code_simp
  have h: "http_status ?hit = 200 \<and> cached ?hit = Some True"
    by (simp add: GET_alchemy_def freshEntry_def fresh_def CACHE_DURATION_def staleEntry_def)
  have fe: "freshEntry 4000 (Some staleEntry) = Some staleEntry"
    by (simp add: freshEntry_def fresh_def CACHE_DURATION_def staleEntry_def)
  have e: "http_status ?failed = 500"
    by (simp add: GET_alchemy_def freshEntry_def fetchAlchemyData_def fetchSummaryData_def
        githubResponse_def fetch_def respond_def serving_def ok_def readSummary_def json_def
        noItemsDocument_def processAlchemyData_def js_map_def errorResponse_def)
  from s [of getTime0 1704070800000 1704070800001 ?n None] f src
  have "count ?fresh = Some 1 \<and> dataUpdated ?fresh = Str ''2024-01-01T00:00:00.000Z'' \<and>
      timestamp ?fresh = Some (Millis 1704067200000)"
    by (auto simp: runeAxeDocument_def truthy_def Date_getTime_def getTime0_def)
  moreover from s [of getTime0 4000 4001 ?d "Some staleEntry"] h fe
  have "dataUpdated ?hit = Undefined \<and> timestamp ?hit = Some (Millis 0)"
    by (auto simp: staleEntry_def)
  moreover from s [of getTime0 1704070800000 1704070800001 ?m None] e
  have "?failed = errorResponse ''Failed to analyze alchemy opportunities'' 1704070800001"
    by simp
  ultimately show ?thesis by simp
qed

subsection \<open>C5: defaults\<close>

text \<open>
  C5, as stated, fails twice: a raw \<^verbatim>\<open>VolumePattern\<close> that is present and empty comes out
  as the sentinel \<^verbatim>\<open>"BALANCED"\<close>, and the dip field \<^verbatim>\<open>volume24hTotal\<close>, which has no raw
  field at all, is 1000 and not 0.
\<close>

theorem empty_string_gets_sentinel:
  "map_sum id (map vp_volumePattern)
     (processVolumeProfileData (Arr [Some (blankVolume\<lparr>rp_VolumePattern := Some []\<rparr>)])) =
     Inr [''BALANCED''] \<and>
   map_sum id (map dip_volume24hTotal) (processDipData (Arr [Some blankDip])) = Inr [1000]"
  by code_simp

text \<open>
  C5 (amended): every category's normalizer applies its callback to each record, and in
  the callback's result each numeric field copied from a raw field equals that field
  when it is present and 0 when it is absent; each string field copied from a raw field
  equals that field when it is present and not empty, and the category's default when it
  is absent or empty; the four volume fields of a dip are the constants 1000, 100, 10
  and 1.
\<close>

theorem normalizer_defaults:
  "processAlchemyData (Arr (map Some as)) = Inr (map (\<lambda>k. alchemyItem (as ! k) k) [0..<length as]) \<and>
   processDipData (Arr (map Some ds)) = Inr (map (\<lambda>k. dipItem (ds ! k) k) [0..<length ds]) \<and>
   processVolatilityData (Arr (map Some vs)) =
     Inr (map (\<lambda>k. volatilityItem (vs ! k) k) [0..<length vs]) \<and>
   processVolumeProfileData (Arr (map Some ps)) =
     Inr (map (\<lambda>k. volumeProfileItem (ps ! k) k) [0..<length ps]) \<and>
   processConfluenceData (Arr (map Some cs)) =
     Inr (map (\<lambda>k. confluenceItem (cs ! k) k) [0..<length cs]) \<and>
   processRecipeArbitrageData (Arr (map Some rs)) =
     Inr (map (\<lambda>k. recipeItem (rs ! k) k) [0..<length rs]) \<and>
   alch_name (alchemyItem a i) = (if ra_ItemName a = Some [] then ''Unknown Item'' else nullish (ra_ItemName a) ''Unknown Item'') \<and>
   alch_currentLow (alchemyItem a i) = nullish (ra_LowPrice a) 0 \<and>
   alch_priceFloor (alchemyItem a i) = nullish (ra_PriceFloor a) 0 \<and>
   alch_buyLimit (alchemyItem a i) = nullish (ra_BuyLimit a) 0 \<and>
   alch_roi (alchemyItem a i) = nullish (ra_pctROI a) 0 \<and>
   alch_alchPrice (alchemyItem a i) = nullish (ra_PriceFloor a) 0 \<and>
   dip_id (dipItem d i) = nullish (rd_id d) 0 \<and>
   dip_name (dipItem d i) = (if rd_ItemName d = Some [] then ''Unknown Item'' else nullish (rd_ItemName d) ''Unknown Item'') \<and>
   dip_currentLow (dipItem d i) = nullish (rd_LowPrice d) 0 \<and>
   dip_currentHigh (dipItem d i) = nullish (rd_LowPrice d) 0 \<and>
   dip_avg24hLow (dipItem d i) = nullish (rd_AvgLow d) 0 \<and>
   dip_avg1hLow (dipItem d i) = nullish (rd_AvgLow d) 0 \<and>
   dip_avg5mLow (dipItem d i) = nullish (rd_AvgLow d) 0 \<and>
   dip_dipMagnitudePercent (dipItem d i) = nullish (rd_pctROI d) 0 \<and>
   dip_buyLimit (dipItem d i) = nullish (rd_BuyLimit d) 0 \<and>
   dip_roi (dipItem d i) = nullish (rd_pctROI d) 0 \<and>
   vol_name (volatilityItem v i) = (if rv_ItemName v = Some [] then ''Unknown Item'' else nullish (rv_ItemName v) ''Unknown Item'') \<and>
   vol_currentPrice (volatilityItem v i) = nullish (rv_CurrentPrice v) 0 \<and>
   vol_buyLimit (volatilityItem v i) = nullish (rv_BuyLimit v) 0 \<and>
   vol_dailyRange (volatilityItem v i) = nullish (rv_DailyRange v) 0 \<and>
   vol_weeklyRange (volatilityItem v i) = nullish (rv_WeeklyRange v) 0 \<and>
   vol_monthlyRange (volatilityItem v i) = nullish (rv_MonthlyRange v) 0 \<and>
   vol_compressionRatio (volatilityItem v i) = nullish (rv_CompressionRatio v) 0 \<and>
   vol_breakoutDirection (volatilityItem v i) = (if rv_BreakoutDirection v = Some [] then ''NEUTRAL'' else nullish (rv_BreakoutDirection v) ''NEUTRAL'') \<and>
   vol_volumeConfirmation (volatilityItem v i) = (if rv_VolumeConfirmation v = Some [] then ''LOW_VOLUME'' else nullish (rv_VolumeConfirmation v) ''LOW_VOLUME'') \<and>
   vol_potentialBreakoutProfit (volatilityItem v i) = nullish (rv_PotentialBreakoutProfit v) 0 \<and>
   vol_compressionLevel (volatilityItem v i) = (if rv_CompressionLevel v = Some [] then ''LOW_COMPRESSION'' else nullish (rv_CompressionLevel v) ''LOW_COMPRESSION'') \<and>
   vp_name (volumeProfileItem p i) = (if rp_ItemName p = Some [] then ''Unknown Item'' else nullish (rp_ItemName p) ''Unknown Item'') \<and>
   vp_currentPrice (volumeProfileItem p i) = nullish (rp_CurrentPrice p) 0 \<and>
   vp_currentHigh (volumeProfileItem p i) = nullish (rp_CurrentHigh p) 0 \<and>
   vp_buyLimit (volumeProfileItem p i) = nullish (rp_BuyLimit p) 0 \<and>
   vp_lowPriceVolume (volumeProfileItem p i) = nullish (rp_LowPriceVolume p) 0 \<and>
   vp_highPriceVolume (volumeProfileItem p i) = nullish (rp_HighPriceVolume p) 0 \<and>
   vp_weeklyLowVolume (volumeProfileItem p i) = nullish (rp_WeeklyLowVolume p) 0 \<and>
   vp_weeklyHighVolume (volumeProfileItem p i) = nullish (rp_WeeklyHighVolume p) 0 \<and>
   vp_volumeImbalanceRatio (volumeProfileItem p i) = nullish (rp_VolumeImbalanceRatio p) 0 \<and>
   vp_volumePattern (volumeProfileItem p i) = (if rp_VolumePattern p = Some [] then ''BALANCED'' else nullish (rp_VolumePattern p) ''BALANCED'') \<and>
   vp_volumeSurge (volumeProfileItem p i) = (if rp_VolumeSurge p = Some [] then ''NORMAL_VOLUME'' else nullish (rp_VolumeSurge p) ''NORMAL_VOLUME'') \<and>
   vp_smartMoneySignal (volumeProfileItem p i) = (if rp_SmartMoneySignal p = Some [] then ''NO_SMART_MONEY_SIGNAL'' else nullish (rp_SmartMoneySignal p) ''NO_SMART_MONEY_SIGNAL'') \<and>
   vp_accumulationProfit (volumeProfileItem p i) = nullish (rp_AccumulationProfit p) 0 \<and>
   conf_name (confluenceItem c i) = (if rc_ItemName c = Some [] then ''Unknown Item'' else nullish (rc_ItemName c) ''Unknown Item'') \<and>
   conf_currentPrice (confluenceItem c i) = nullish (rc_CurrentPrice c) 0 \<and>
   conf_buyLimit (confluenceItem c i) = nullish (rc_BuyLimit c) 0 \<and>
   conf_fiveMinMean (confluenceItem c i) = nullish (rc_FiveMinMean c) 0 \<and>
   conf_hourlyMean (confluenceItem c i) = nullish (rc_HourlyMean c) 0 \<and>
   conf_dailyMean (confluenceItem c i) = nullish (rc_DailyMean c) 0 \<and>
   conf_weeklyMean (confluenceItem c i) = nullish (rc_WeeklyMean c) 0 \<and>
   conf_monthlyMean (confluenceItem c i) = nullish (rc_MonthlyMean c) 0 \<and>
   conf_bullishConfluence (confluenceItem c i) = nullish (rc_BullishConfluence c) 0 \<and>
   conf_bearishConfluence (confluenceItem c i) = nullish (rc_BearishConfluence c) 0 \<and>
   conf_signalStrength (confluenceItem c i) = (if rc_SignalStrength c = Some [] then ''MIXED_SIGNALS'' else nullish (rc_SignalStrength c) ''MIXED_SIGNALS'') \<and>
   conf_volumeConfirmation (confluenceItem c i) = (if rc_VolumeConfirmation c = Some [] then ''WEAK_VOLUME'' else nullish (rc_VolumeConfirmation c) ''WEAK_VOLUME'') \<and>
   conf_potentialProfit (confluenceItem c i) = nullish (rc_PotentialProfit c) 0 \<and>
   rec_productName (recipeItem r i) = (if rr_ProductName r = Some [] then ''Unknown Product'' else nullish (rr_ProductName r) ''Unknown Product'') \<and>
   rec_productPrice (recipeItem r i) = nullish (rr_ProductPrice r) 0 \<and>
   rec_productBuyLimit (recipeItem r i) = nullish (rr_ProductBuyLimit r) 0 \<and>
   rec_ingredient1Name (recipeItem r i) = (if rr_Ingredient1Name r = Some [] then [] else nullish (rr_Ingredient1Name r) []) \<and>
   rec_ingredient1Price (recipeItem r i) = nullish (rr_Ingredient1Price r) 0 \<and>
   rec_ingredient1Qty (recipeItem r i) = (if rr_Ingredient1Qty r = Some [] then [] else nullish (rr_Ingredient1Qty r) []) \<and>
   rec_ingredient2Name (recipeItem r i) = (if rr_Ingredient2Name r = Some [] then [] else nullish (rr_Ingredient2Name r) []) \<and>
   rec_ingredient2Price (recipeItem r i) = nullish (rr_Ingredient2Price r) 0 \<and>
   rec_ingredient2Qty (recipeItem r i) = (if rr_Ingredient2Qty r = Some [] then [] else nullish (rr_Ingredient2Qty r) []) \<and>
   rec_ingredient3Name (recipeItem r i) = (if rr_Ingredient3Name r = Some [] then [] else nullish (rr_Ingredient3Name r) []) \<and>
   rec_ingredient3Price (recipeItem r i) = nullish (rr_Ingredient3Price r) 0 \<and>
   rec_ingredient3Qty (recipeItem r i) = (if rr_Ingredient3Qty r = Some [] then [] else nullish (rr_Ingredient3Qty r) []) \<and>
   rec_totalIngredientCost (recipeItem r i) = nullish (rr_TotalIngredientCost r) 0 \<and>
   rec_profitPerCraft (recipeItem r i) = nullish (rr_ProfitPerCraft r) 0 \<and>
   rec_roi (recipeItem r i) = nullish (rr_ROI r) 0 \<and>
   rec_recipeType (recipeItem r i) = (if rr_RecipeType r = Some [] then [] else nullish (rr_RecipeType r) []) \<and>
   rec_qtyProduced (recipeItem r i) = nullish (rr_QtyProduced r) 0 \<and>
   rec_liquidityLevel (recipeItem r i) = (if rr_LiquidityLevel r = Some [] then ''LOW_LIQUIDITY'' else nullish (rr_LiquidityLevel r) ''LOW_LIQUIDITY'') \<and>
   dip_volume24hTotal (dipItem d i) = 1000 \<and>
   dip_volume1hTotal (dipItem d i) = 100 \<and>
   dip_volume5mTotal (dipItem d i) = 10 \<and>
   dip_volumeSurge (dipItem d i) = 1"
  by (simp add: processAlchemyData_def processDipData_def
        processVolatilityData_def processVolumeProfileData_def processConfluenceData_def
        processRecipeArbitrageData_def js_map_records alchemyItem_def dipItem_def
        volatilityItem_def volumeProfileItem_def confluenceItem_def recipeItem_def
        num_or_zero str_or_nullish)

subsection \<open>C6: the rune axe\<close>

text \<open>
  C6: the alchemy normalizer maps the single record
  \<^verbatim>\<open>{ ItemName: "Rune axe", LowPrice: 100, PriceFloor: 150, BuyLimit: 8 }\<close> to one
  opportunity with name "Rune axe", currentLow 100, priceFloor 150, potentialProfit 50,
  tax 1, buyLimit 8 and natureRuneCost 170.
\<close>

theorem alchemy_rune_axe:
  "processAlchemyData (Arr [Some runeAxe]) =
   Inr [\<lparr>alch_id = ''alchemy-0'', alch_name = ''Rune axe'', alch_members = True, alch_icon = [],
      alch_currentLow = 100, alch_priceFloor = 150, alch_buyLimit = 8, alch_potentialProfit = 50,
      alch_roi = 0, alch_alchPrice = 150, alch_natureRuneCost = 170, alch_tax = 1,
      alch_liquidityRisk = 1, alch_capitalRisk = 1, alch_overallRisk = 2\<rparr>]"
  by code_simp

subsection \<open>C7: failures and the cache\<close>

text \<open>
  C7, as stated, fails in its last part: the entry a failed request leaves is not
  served by later requests. The alchemy cache holds an entry that is no longer fresh;
  a request at 60000 fetches a document without \<^verbatim>\<open>items\<close>, the normalizer raises, the
  route answers 500 and the entry is still there. The next request, at 61000, does not
  get the entry's data: it fetches again, and with the source unchanged it is answered
  500 with no data.
\<close>

theorem stale_entry_is_not_served_after_failure:
  "http_status (fst (GET_alchemy getTime0 60000 60001 (serving noItemsDocument)
     (Some staleEntry))) = 500 \<and>
   snd (GET_alchemy getTime0 60000 60001 (serving noItemsDocument) (Some staleEntry)) =
     Some staleEntry \<and>
   c_data staleEntry = [alchemyItem runeAxe 0] \<and>
   http_status (fst (GET_alchemy getTime0 61000 61001 (serving noItemsDocument)
     (snd (GET_alchemy getTime0 60000 60001 (serving noItemsDocument) (Some staleEntry))))) =
     500 \<and>
   data (fst (GET_alchemy getTime0 61000 61001 (serving noItemsDocument)
     (snd (GET_alchemy getTime0 60000 60001 (serving noItemsDocument) (Some staleEntry))))) =
     None"
  by code_simp

text \<open>
  C7 (amended): for every category, when an exception reaches the endpoint's
  \<^verbatim>\<open>catch\<close> block (in the routes as they are, the normalizer raising on the fetched
  \<^verbatim>\<open>items\<close>), the endpoint returns a 500 with the category's generic error message and
  the previously stored cache entry is left unchanged. That entry is not served
  afterwards: no request at the same or a later clock reading is answered from it.
\<close>

theorem failed_request_keeps_cache:
  "failure_keeps_cache GET_alchemy processAlchemyData
     ''Failed to analyze alchemy opportunities'' \<and>
   failure_keeps_cache GET_dip processDipData ''Failed to detect price dips'' \<and>
   failure_keeps_cache GET_volatility processVolatilityData
     ''Failed to fetch volatility breakout data'' \<and>
   failure_keeps_cache GET_volumeProfile processVolumeProfileData
     ''Failed to fetch volume profile data'' \<and>
   failure_keeps_cache GET_confluence processConfluenceData
     ''Failed to fetch confluence analysis data'' \<and>
   failure_keeps_cache GET_recipeArbitrage processRecipeArbitrageData
     ''Failed to fetch recipe arbitrage data''"
  by (simp add: GET_handler handler_failure)

text \<open>
  C7 (amended), at a concrete input: an entry that is no longer fresh, a document
  without \<^verbatim>\<open>items\<close>, and a later request while the source can be reached again.
\<close>

theorem failed_request_keeps_cache_witness:
  "http_status (fst (GET_alchemy getTime0 60000 60001 (serving noItemsDocument)
     (Some staleEntry))) = 500 \<and>
   snd (GET_alchemy getTime0 60000 60001 (serving noItemsDocument) (Some staleEntry)) =
     Some staleEntry \<and>
   cached (fst (GET_alchemy getTime0 61000 61001 (serving runeAxeDocument) (Some staleEntry))) \<noteq>
     Some True"
proof -
  let ?m = "serving noItemsDocument"
  have k: "failure_keeps_cache GET_alchemy processAlchemyData
      ''Failed to analyze alchemy opportunities''"
    using failed_request_keeps_cache by simp
  note inst = k [unfolded failure_keeps_cache_def, rule_format,
      where getTime = getTime0 and now = 60000 and later = 60001 and net = ?m
        and cache = "Some staleEntry"]
  have h: "freshEntry 60000 (Some staleEntry) = None \<and>
      fst (fetchSummaryData ?m) = Inr noItemsDocument \<and>
      processAlchemyData (items noItemsDocument) = Inl TypeError"
    by (simp add: freshEntry_def fresh_def CACHE_DURATION_def staleEntry_def fetchSummaryData_def
        githubResponse_def fetch_def respond_def serving_def ok_def readSummary_def json_def
        noItemsDocument_def processAlchemyData_def js_map_def)
  have st: "http_status (fst (GET_alchemy getTime0 60000 60001 ?m (Some staleEntry))) = 500"
    using inst [THEN conjunct2, rule_format, OF h] .
  note after = inst [THEN conjunct1, rule_format, OF st]
  have l: "(60000::int) \<le> 61000" by simp
  from after [THEN conjunct2, THEN conjunct2, rule_format, OF l,
      where ?getTime' = getTime0 and ?later' = 61001 and ?net' = "serving runeAxeDocument"]
    after [THEN conjunct2, THEN conjunct1] st
  show ?thesis by simp
qed

subsection \<open>C8: the unified timestamp\<close>

text \<open>
  C8: when each of the six \<^verbatim>\<open>dataUpdated\<close> values is absent or a timestamp, the page's
  "data as of" time is the maximum of the times of the present ones, and \<^verbatim>\<open>null\<close> when
  none is present.
\<close>

theorem latest_is_maximum_of_present:
  assumes "\<forall>u \<in> set [dips, alchemy, volatility, volumeProfile, confluence, recipeArbitrage].
             timestamp_or_absent getTime u"
  shows "latestDataUpdate getTime dips alchemy volatility volumeProfile confluence recipeArbitrage =
           unifiedDataAsOf getTime
             [dips, alchemy, volatility, volumeProfile, confluence, recipeArbitrage]"
proof -
  define us where "us = [dips, alchemy, volatility, volumeProfile, confluence, recipeArbitrage]"
  define times where "times = [t. Str s \<leftarrow> us, Millis t \<leftarrow> [getTime s]]"
  have m: "map (Date_getTime getTime) (filter truthy us) = map Millis times"
    unfolding times_def using assms unfolding us_def by (rule getTime_of_timestamps)
  have l: "latestDataUpdate getTime dips alchemy volatility volumeProfile confluence
      recipeArbitrage =
      (case map (Date_getTime getTime) (filter truthy us) of
         [] \<Rightarrow> None | t # ts \<Rightarrow> Some (Math_max t ts))"
    unfolding latestDataUpdate_def Let_def us_def ..
  have u: "unifiedDataAsOf getTime us =
      (if times = [] then None else Some (Millis (Max (set times))))"
    unfolding unifiedDataAsOf_def Let_def times_def ..
  have "latestDataUpdate getTime dips alchemy volatility volumeProfile confluence
      recipeArbitrage = unifiedDataAsOf getTime us"
  proof (cases times)
    case Nil
    then show ?thesis unfolding l u m by simp
  next
    case (Cons a as)
    then show ?thesis unfolding l u m by (simp add: Math_max_Millis del: set_simps)
  qed
  then show ?thesis unfolding us_def .
qed

text \<open>
  C8, at concrete inputs: three categories report a time; no category reports one.
\<close>

theorem latest_is_maximum_of_present_witness:
  "latestDataUpdate getTime1 (Str ''2024-01-01T00:00:00.000Z'') Null Undefined
     (Str ''2024-01-01T00:05:00.000Z'') Null (Str ''2024-01-01T00:00:00.000Z'') =
     Some (Millis 1704067500000) \<and>
   latestDataUpdate getTime1 Null Undefined Null Undefined Null Null = None"
proof -
  have h1: "\<forall>u \<in> set [Str ''2024-01-01T00:00:00.000Z'', Null, Undefined,
      Str ''2024-01-01T00:05:00.000Z'', Null, Str ''2024-01-01T00:00:00.000Z''].
        timestamp_or_absent getTime1 u"
    by (simp add: timestamp_or_absent_def getTime1_def)
  have h2: "\<forall>u \<in> set [Null, Undefined, Null, Undefined, Null, Null].
      timestamp_or_absent getTime1 u"
    by (simp add: timestamp_or_absent_def)
  have v1: "unifiedDataAsOf getTime1 [Str ''2024-01-01T00:00:00.000Z'', Null, Undefined,
      Str ''2024-01-01T00:05:00.000Z'', Null, Str ''2024-01-01T00:00:00.000Z''] =
      Some (Millis 1704067500000)"
    by (simp add: unifiedDataAsOf_def getTime1_def)
  have v2: "unifiedDataAsOf getTime1 [Null, Undefined, Null, Undefined, Null, Null] = None"
    by (simp add: unifiedDataAsOf_def)
  from latest_is_maximum_of_present [OF h1] latest_is_maximum_of_present [OF h2] v1 v2
  show ?thesis by simp
qed

subsection \<open>C9: sequential fallback\<close>

text \<open>
  C9: for every category, the fetch function contacts the primary endpoint first and
  the secondary endpoint after it, exactly when the primary attempt failed (a second
  time when the first request to it raised after a non-success primary status); and when the
  primary answers 403 and the secondary a document the normalizer accepts, a request
  that misses the cache is answered with the success built from that document, the very
  response it would get had the primary served the document.
\<close>

theorem fallback_is_sequential:
  "sequential_fallback fetchAlchemyData \<and>
   sequential_fallback fetchDipDetectionData \<and>
   sequential_fallback fetchVolatilityData \<and>
   sequential_fallback fetchVolumeProfileData \<and>
   sequential_fallback fetchConfluenceData \<and>
   sequential_fallback fetchRecipeArbitrageData \<and>
   secondary_document_served GET_alchemy processAlchemyData \<and>
   secondary_document_served GET_dip processDipData \<and>
   secondary_document_served GET_volatility processVolatilityData \<and>
   secondary_document_served GET_volumeProfile processVolumeProfileData \<and>
   secondary_document_served GET_confluence processConfluenceData \<and>
   secondary_document_served GET_recipeArbitrage processRecipeArbitrageData"
  by (simp add: fetch_functions fetchSummaryData_sequential GET_handler handler_secondary)

text \<open>
  C9, at a concrete input of the alchemy route: a 403 followed by the rune axe document.
\<close>

theorem fallback_is_sequential_witness:
  "snd (fetchAlchemyData
     (rateLimited (JsonDoc runeAxeDocument))) =
     [GithubApi, RawUrl] \<and>
   snd (fetchAlchemyData
     (serving runeAxeDocument)) = [GithubApi] \<and>
   data (fst (GET_alchemy getTime0 1704070800000 1704070800001 (rateLimited (JsonDoc runeAxeDocument)) None)) =
     Some [alchemyItem runeAxe 0] \<and>
   GET_alchemy getTime0 1704070800000 1704070800001 (rateLimited (JsonDoc runeAxeDocument)) None =
   GET_alchemy getTime0 1704070800000 1704070800001
     \<lparr>primary = respond 200 (JsonDoc runeAxeDocument),
      secondary = respond 200 (JsonDoc runeAxeDocument),
      secondaryRetry = respond 200 (JsonDoc runeAxeDocument)\<rparr> None"
proof -
  let ?n = "rateLimited (JsonDoc runeAxeDocument)"
  let ?m = "serving runeAxeDocument"
  let ?r2 = "\<lparr>status = 200, body = JsonDoc runeAxeDocument\<rparr>"
  have s: "sequential_fallback fetchAlchemyData"
    and g: "secondary_document_served GET_alchemy processAlchemyData"
    using fallback_is_sequential by simp_all
  have "fails (primary ?n)" "\<not> retried ?n" "\<not> fails (primary ?m)"
    by (simp_all add: fails_def retried_def respond_def serving_def
        unreachable_def rateLimited_def ok_def)
  with s have t: "snd (fetchAlchemyData ?n) = [GithubApi, RawUrl]"
    "snd (fetchAlchemyData ?m) = [GithubApi]"
    unfolding sequential_fallback_def by simp_all
  have h: "freshEntry 1704070800000 (None :: AlchemyOpportunity cache) = None \<and>
      primary ?n = Responds \<lparr>status = 403, body = BadJson\<rparr> \<and>
      status \<lparr>status = 403, body = BadJson :: RawAlchemyData body\<rparr> = 403 \<and>
      secondary ?n = Responds ?r2 \<and> ok ?r2 \<and> body ?r2 = JsonDoc runeAxeDocument \<and>
      processAlchemyData (items runeAxeDocument) = Inr [alchemyItem runeAxe 0]"
    by (simp add: freshEntry_def respond_def serving_def
        unreachable_def rateLimited_def ok_def runeAxeDocument_def processAlchemyData_def
        js_map_def)
  note inst = g [unfolded secondary_document_served_def, rule_format, OF h,
      where getTime = getTime0 and later = 1704070800001]
  have d: "data (fst (GET_alchemy getTime0 1704070800000 1704070800001 ?n None)) =
      Some [alchemyItem runeAxe 0]"
    using inst by (elim conjE)
  have e: "GET_alchemy getTime0 1704070800000 1704070800001 ?n None =
      GET_alchemy getTime0 1704070800000 1704070800001 (?n\<lparr>primary := Responds ?r2\<rparr>) None"
    using inst by (elim conjE)
  have e': "?n\<lparr>primary := Responds ?r2\<rparr> =
      \<lparr>primary = respond 200 (JsonDoc runeAxeDocument),
       secondary = respond 200 (JsonDoc runeAxeDocument),
      secondaryRetry = respond 200 (JsonDoc runeAxeDocument)\<rparr>"
    by (simp add: respond_def serving_def
        unreachable_def rateLimited_def)
  from t d e [unfolded e'] show ?thesis by (intro conjI)
qed

subsection \<open>C10: the client shows the first fifty\<close>

text \<open>
  C10: every transform function of the page keeps the first 50 records of its input
  and nothing else: its result has \<open>min 50 N\<close> items, the item at position \<open>i\<close> is the one its
  callback makes from the record at position \<open>i\<close>, and the result is the same as on the
  first 50 records alone, so the records after them are dropped. Every table shows the
  first 20 items it is given, in order, each with its rank.
\<close>

theorem client_keeps_first_fifty:
  "first_fifty (transformDipsDataFromAPI toFixed) (\<lambda>item index. toDipItem toFixed item) \<and>
   first_fifty transformAlchemyDataFromAPI (\<lambda>item index. toAlchemyItem item) \<and>
   first_fifty transformVolatilityDataFromAPI toVolatilityItem \<and>
   first_fifty transformVolumeProfileDataFromAPI toVolumeProfileItem \<and>
   first_fifty transformConfluenceDataFromAPI toConfluenceItem \<and>
   first_fifty transformRecipeArbitrageDataFromAPI toRecipeArbitrageItem \<and>
   first_twenty DipsTable \<and>
   first_twenty AlchemyTable \<and>
   first_twenty VolatilityTable \<and>
   first_twenty VolumeProfileTable \<and>
   first_twenty ConfluenceTable \<and>
   first_twenty RecipeArbitrageTable"
proof -
  have "transformDipsDataFromAPI toFixed = (\<lambda>rows. map (toDipItem toFixed) (slice 0 50 rows))"
    "transformAlchemyDataFromAPI = (\<lambda>rows. map toAlchemyItem (slice 0 50 rows))"
    "transformVolatilityDataFromAPI = (\<lambda>rows. mapi toVolatilityItem (slice 0 50 rows))"
    "transformVolumeProfileDataFromAPI = (\<lambda>rows. mapi toVolumeProfileItem (slice 0 50 rows))"
    "transformConfluenceDataFromAPI = (\<lambda>rows. mapi toConfluenceItem (slice 0 50 rows))"
    "transformRecipeArbitrageDataFromAPI =
       (\<lambda>rows. mapi toRecipeArbitrageItem (slice 0 50 rows))"
    by (simp_all add: fun_eq_iff transformDipsDataFromAPI_def transformAlchemyDataFromAPI_def
        transformVolatilityDataFromAPI_def transformVolumeProfileDataFromAPI_def
        transformConfluenceDataFromAPI_def transformRecipeArbitrageDataFromAPI_def)
  note transforms = this
  have "DipsTable = (\<lambda>rows. mapi (\<lambda>item index. (index + 1, item)) (slice 0 20 rows))"
    "AlchemyTable = (\<lambda>rows. mapi (\<lambda>item index. (index + 1, item)) (slice 0 20 rows))"
    "VolatilityTable = (\<lambda>rows. mapi (\<lambda>item index. (index + 1, item)) (slice 0 20 rows))"
    "VolumeProfileTable = (\<lambda>rows. mapi (\<lambda>item index. (index + 1, item)) (slice 0 20 rows))"
    "ConfluenceTable = (\<lambda>rows. mapi (\<lambda>item index. (index + 1, item)) (slice 0 20 rows))"
    "RecipeArbitrageTable = (\<lambda>rows. mapi (\<lambda>item index. (index + 1, item)) (slice 0 20 rows))"
    by (simp_all add: fun_eq_iff DipsTable_def AlchemyTable_def VolatilityTable_def
        VolumeProfileTable_def ConfluenceTable_def RecipeArbitrageTable_def)
  note tables = this
  show ?thesis
    unfolding transforms tables
    by (intro conjI first_fifty_map first_fifty_mapi first_twenty_rows)
qed

text \<open>
  C10, at a concrete input: 51 alchemy records numbered 1 to 51. The transform returns
  the items numbered 1 to 50, in this order, and the table shows 20 of them.
\<close>

theorem client_keeps_first_fifty_witness:
  "length (transformAlchemyDataFromAPI (numberedRows 51)) = 50 \<and>
   map ai_id (transformAlchemyDataFromAPI (numberedRows 51)) = map of_nat [1..<51] \<and>
   transformAlchemyDataFromAPI (numberedRows 51) ! 49 = toAlchemyItem (numberedRows 51 ! 49) \<and>
   ai_id (toAlchemyItem (numberedRows 51 ! 49)) = 50 \<and>
   length (AlchemyTable (transformAlchemyDataFromAPI (numberedRows 51))) = 20 \<and>
   AlchemyTable (transformAlchemyDataFromAPI (numberedRows 51)) ! 19 =
     (20, transformAlchemyDataFromAPI (numberedRows 51) ! 19)"
proof -
  have f: "first_fifty transformAlchemyDataFromAPI (\<lambda>item index. toAlchemyItem item)"
    and t: "first_twenty AlchemyTable"
    using client_keeps_first_fifty by simp_all
  have n: "length (numberedRows 51) = 51" by (simp add: numberedRows_def)
  note ff = f [unfolded first_fifty_def, rule_format, of "numberedRows 51"]
  from ff [THEN conjunct1] n
  have l: "length (transformAlchemyDataFromAPI (numberedRows 51)) = 50" by simp
  have i: "(49::nat) < min 50 (length (numberedRows 51))" using n by simp
  from ff [THEN conjunct2, THEN conjunct1, rule_format, OF i]
  have a: "transformAlchemyDataFromAPI (numberedRows 51) ! 49 = toAlchemyItem (numberedRows 51 ! 49)" .
  have b: "ai_id (toAlchemyItem (numberedRows 51 ! 49)) = 50"
    by (simp add: numberedRows_def toAlchemyItem_def num_or_def blankRow_def nth_append)
  have m: "map ai_id (transformAlchemyDataFromAPI (numberedRows 51)) = map of_nat [1..<51]"
    by code_simp
  note tt = t [unfolded first_twenty_def, rule_format, of "transformAlchemyDataFromAPI (numberedRows 51)"]
  from tt [THEN conjunct1] l have l2: "length (AlchemyTable (transformAlchemyDataFromAPI (numberedRows 51))) = 20"
    by simp
  have j: "(19::nat) < min 20 (length (transformAlchemyDataFromAPI (numberedRows 51)))"
    using l by simp
  from tt [THEN conjunct2, rule_format, OF j]
  have c: "AlchemyTable (transformAlchemyDataFromAPI (numberedRows 51)) ! 19 =
     (19 + 1, transformAlchemyDataFromAPI (numberedRows 51) ! 19)" .
  from l m a b l2 c show ?thesis by simp
qed

end
